theory Spec2Isabelle
  imports Complex_Main "HOL-Library.Sublist"
begin

unbundle bit_operations_syntax

section \<open>Device nodes and the diagnostics the scripts print\<close>

text \<open>
  The scripts talk to the camera through named nodes of its node map. A node that the
  device does not have is a null pointer, for which \<open>IsReadable\<close> and
  \<open>IsWritable\<close> answer False: it is modelled as a node whose two flags are False.
  A write to a node that reports itself writable is taken to succeed; the range checks of
  the SDK are not part of the model.
\<close>

datatype level = INFO | WARN | ERROR | CHECK

text \<open>
  What a run does to the outside world, in the order it does it: lines printed, node
  writes, SDK calls, library calls. Numbers interpolated into a printed line are left
  out of its text; names are kept.
\<close>

datatype conversion =
    COLOR_GRAY2BGR
  | COLOR_RGB2BGR
  | COLOR_BAYER_RG2BGR
  | COLOR_BAYER_GB2BGR
  | COLOR_BAYER_GR2BGR
  | COLOR_BAYER_BG2BGR

datatype exn = SpinnakerException | Cv2Error | ZeroDivisionError | AttributeError

datatype event =
    Print level string
  | SetValue string int
  | SetBool string bool
  | SetFloat string real
  | SetIntValue string int
  | MakeDirs string
  | GetInstance
  | GetCameras
  | ClearList
  | ReleaseInstance
  | Init
  | DeInit
  | BeginAcquisition
  | EndAcquisition
  | GetNextImage "exn + nat"
  | GetNDArray nat
  | Release nat
  | CvtColor conversion
  | PutText nat
  | ImWrite string nat
  | ImShow nat
  | WaitKey
  | DestroyAllWindows

record int_node =
  i_readable :: bool
  i_writable :: bool
  i_max :: int
  i_val :: int

record bool_node =
  b_writable :: bool
  b_val :: bool

record float_node =
  f_readable :: bool
  f_writable :: bool
  f_max :: real
  f_val :: real

record enum_entry =
  e_readable :: bool
  e_val :: int

record enum_node =
  en_readable :: bool
  en_writable :: bool
  en_entries :: "(string \<times> enum_entry) list"
  en_current :: int

record camera =
  PixelFormat :: enum_node
  AcquisitionMode :: enum_node
  Width :: int_node
  Height :: int_node
  OffsetX :: int_node
  OffsetY :: int_node
  AcquisitionFrameRateEnable :: bool_node
  AcquisitionFrameRate :: float_node

definition GetEntryByName :: "enum_node \<Rightarrow> string \<Rightarrow> enum_entry option" where
  "GetEntryByName node name = map_of (en_entries node) name"

definition GetCurrentEntry :: "enum_node \<Rightarrow> (string \<times> enum_entry) option" where
  "GetCurrentEntry node = find (\<lambda>(name, e). e_val e = en_current node) (en_entries node)"

subsection \<open>debug\_pixel\_format\<close>

definition debug_pixel_format :: "camera \<Rightarrow> event list" where
  "debug_pixel_format cam =
     (let pixel_format_enum = PixelFormat cam in
      if \<not> en_readable pixel_format_enum then [Print WARN ''PixelFormat is not readable.'']
      else
        (case GetCurrentEntry pixel_format_enum of
           None \<Rightarrow> [Print WARN ''Current PixelFormat entry is not readable.'']
         | Some (symbolic, current_entry) \<Rightarrow>
             if \<not> e_readable current_entry
             then [Print WARN ''Current PixelFormat entry is not readable.'']
             else [Print INFO (''Current PixelFormat: '' @ symbolic)]))"

subsection \<open>set\_pixel\_format\<close>

text \<open>
  The \<open>for\<close> loop over the preferred names. \<open>Some\<close> is the \<open>return\<close> inside the
  loop, with the node after the write and what was done; \<open>None\<close> is the loop running
  to its end.
\<close>

fun try_formats :: "enum_node \<Rightarrow> string list \<Rightarrow> (enum_node \<times> event list) option" where
  "try_formats node [] = None"
| "try_formats node (fmt_name # rest) =
     (case GetEntryByName node fmt_name of
        None \<Rightarrow> try_formats node rest
      | Some entry \<Rightarrow>
          if e_readable entry
          then Some (node\<lparr>en_current := e_val entry\<rparr>,
                     [SetIntValue ''PixelFormat'' (e_val entry),
                      Print INFO (''PixelFormat set to '' @ fmt_name)])
          else try_formats node rest)"

definition preferred_formats :: "string list" where
  "preferred_formats = [''RGB8Packed'', ''BGR8'', ''Mono8'']"

definition set_pixel_format :: "camera \<Rightarrow> camera \<times> event list" where
  "set_pixel_format cam =
     (let pixel_format_enum = PixelFormat cam in
      if \<not> en_writable pixel_format_enum
      then (cam, [Print WARN ''Cannot write PixelFormat. Using current format.''])
      else
        (case try_formats pixel_format_enum preferred_formats of
           Some (node', evs) \<Rightarrow> (cam\<lparr>PixelFormat := node'\<rparr>, evs)
         | None \<Rightarrow> (cam, [Print WARN ''No preferred PixelFormat found. Using default.''])))"

subsection \<open>configure\_camera\_resolution\_fps\<close>

text \<open>
  The function is three blocks and a closing read-back line, run one after the other;
  each block is a definition of its own, and the function is their composition.
  \<open>width % 2 == 1\<close> is Python's floored remainder, which is \<open>mod\<close> on \<open>int\<close>; \<open>//\<close> is \<open>div\<close> on \<open>int\<close>.
\<close>

definition even_down :: "int \<Rightarrow> int" where
  "even_down v = (if v mod 2 = 1 then v - 1 else v)"

definition configure_resolution :: "camera \<Rightarrow> int \<Rightarrow> int \<Rightarrow> camera \<times> event list" where
  "configure_resolution cam width height =
     (if i_writable (Width cam) \<and> i_writable (Height cam)
      then
        (let max_w = i_max (Width cam);
             max_h = i_max (Height cam);
             width1 = even_down (min width max_w);
             height1 = even_down (min height max_h)
         in (cam\<lparr>Width := (Width cam)\<lparr>i_val := width1\<rparr>,
                  Height := (Height cam)\<lparr>i_val := height1\<rparr>\<rparr>,
             [SetValue ''Width'' width1, SetValue ''Height'' height1,
              Print INFO ''Resolution set to {width} x {height}'']))
      else (cam, [Print WARN ''Width/Height not writable'']))"

definition center_roi :: "camera \<Rightarrow> camera \<times> event list" where
  "center_roi cam =
     (if i_writable (OffsetX cam) \<and> i_writable (OffsetY cam)
      then
        (let max_offset_x = i_max (OffsetX cam);
             max_offset_y = i_max (OffsetY cam);
             offset_x = max_offset_x div 2;
             offset_y = max_offset_y div 2
         in (cam\<lparr>OffsetX := (OffsetX cam)\<lparr>i_val := offset_x\<rparr>,
                  OffsetY := (OffsetY cam)\<lparr>i_val := offset_y\<rparr>\<rparr>,
             [SetValue ''OffsetX'' offset_x, SetValue ''OffsetY'' offset_y]))
      else (cam, []))"

definition configure_frame_rate :: "camera \<Rightarrow> real \<Rightarrow> camera \<times> event list" where
  "configure_frame_rate cam fps =
     (let (cam1, evs1) =
            (if b_writable (AcquisitionFrameRateEnable cam)
             then (cam\<lparr>AcquisitionFrameRateEnable :=
                         (AcquisitionFrameRateEnable cam)\<lparr>b_val := True\<rparr>\<rparr>,
                   [SetBool ''AcquisitionFrameRateEnable'' True])
             else (cam, [Print WARN
                     ''AcquisitionFrameRateEnable not writable (might be always on).'']));
          fps_node = AcquisitionFrameRate cam1
      in if f_writable fps_node
         then
           (let max_fps = f_max fps_node;
                fps1 = min fps max_fps
            in (cam1\<lparr>AcquisitionFrameRate := fps_node\<lparr>f_val := fps1\<rparr>\<rparr>,
                evs1 @ [SetFloat ''AcquisitionFrameRate'' fps1,
                        Print INFO ''Frame rate set to {fps:.2f} FPS'']))
         else (cam1, evs1 @ [Print WARN ''Cannot set AcquisitionFrameRate.'']))"

definition configure_camera_resolution_fps ::
  "camera \<Rightarrow> int \<Rightarrow> int \<Rightarrow> real \<Rightarrow> camera \<times> event list" where
  "configure_camera_resolution_fps cam width height fps =
     (let (cam1, evs1) = configure_resolution cam width height;
          (cam2, evs2) = center_roi cam1;
          (cam3, evs3) = configure_frame_rate cam2 fps
      in (cam3, evs1 @ evs2 @ evs3 @
            [Print CHECK ''Applied resolution: {current_width} x {current_height}, FPS: {current_fps:.2f}'']))"

section \<open>The pixel-format normalizer\<close>

subsection \<open>Arrays and the colour conversions of the imaging library\<close>

text \<open>
  \<open>GetNDArray\<close> hands out a two-dimensional array (height, width) for single-plane
  data and a three-dimensional one (height, width, channels) otherwise; no other rank
  occurs. An array is its shape and its samples, row by row, channels interleaved.
\<close>

datatype ndarray =
    Arr2 nat nat "nat list"
  | Arr3 nat nat nat "nat list"

fun ndim :: "ndarray \<Rightarrow> nat" where
  "ndim (Arr2 h w d) = 2"
| "ndim (Arr3 h w c d) = 3"


fun rows :: "ndarray \<Rightarrow> nat" where
  "rows (Arr2 h w d) = h"
| "rows (Arr3 h w c d) = h"

fun cols :: "ndarray \<Rightarrow> nat" where
  "cols (Arr2 h w d) = w"
| "cols (Arr3 h w c d) = w"

fun channels :: "ndarray \<Rightarrow> nat" where
  "channels (Arr2 h w d) = 1"
| "channels (Arr3 h w c d) = c"

fun samples :: "ndarray \<Rightarrow> nat list" where
  "samples (Arr2 h w d) = d"
| "samples (Arr3 h w c d) = d"

text \<open>
  \<open>cv2.cvtColor\<close> is the imaging library's, not this repository's. It is modelled by
  its contract: an empty source and a source whose channel count the conversion does not
  take are rejected with \<open>cv2.error\<close>; otherwise the result is a new array of the same
  height and width with three channels. Grey to BGR repeats each sample three times;
  RGB to BGR takes three or four channels and writes blue, green, red. What a Bayer
  conversion interpolates is left to a parameter \<open>dm\<close>.
\<close>

type_synonym demosaic = "conversion \<Rightarrow> nat \<Rightarrow> nat \<Rightarrow> nat list \<Rightarrow> nat list"

fun gray2bgr :: "nat list \<Rightarrow> nat list" where
  "gray2bgr [] = []"
| "gray2bgr (v # vs) = v # v # v # gray2bgr vs"

fun rgb2bgr :: "nat list \<Rightarrow> nat list" where
  "rgb2bgr (r # g # b # rest) = b # g # r # rgb2bgr rest"
| "rgb2bgr _ = []"

fun rgba2bgr :: "nat list \<Rightarrow> nat list" where
  "rgba2bgr (r # g # b # a # rest) = b # g # r # rgba2bgr rest"
| "rgba2bgr _ = []"

definition cvt :: "demosaic \<Rightarrow> ndarray \<Rightarrow> conversion \<Rightarrow> exn + ndarray" where
  "cvt dm src code =
     (let h = rows src; w = cols src; scn = channels src; d = samples src in
      if h = 0 \<or> w = 0 \<or> scn = 0 then Inl Cv2Error
      else
        (case code of
           COLOR_GRAY2BGR \<Rightarrow>
             if scn = 1 then Inr (Arr3 h w 3 (gray2bgr d)) else Inl Cv2Error
         | COLOR_RGB2BGR \<Rightarrow>
             if scn = 3 then Inr (Arr3 h w 3 (rgb2bgr d))
             else if scn = 4 then Inr (Arr3 h w 3 (rgba2bgr d))
             else Inl Cv2Error
         | _ \<Rightarrow>
             if scn = 1 then Inr (Arr3 h w 3 (dm code h w d)) else Inl Cv2Error))"

text \<open>
  Arrays are objects: a name holds a reference, and two names may hold the same one. The
  store is the list of the arrays allocated so far, a reference is an index into it, and
  a new array goes to the end. \<open>cvtColor\<close> without a destination argument allocates
  its result and leaves the source as it is.
\<close>

type_synonym heap = "ndarray list"

definition cvtColor :: "demosaic \<Rightarrow> heap \<Rightarrow> nat \<Rightarrow> conversion \<Rightarrow> (exn + nat) \<times> heap" where
  "cvtColor dm heap src code =
     (if src < length heap
      then (case cvt dm (heap ! src) code of
              Inl e \<Rightarrow> (Inl e, heap)
            | Inr dst \<Rightarrow> (Inr (length heap), heap @ [dst]))
      else (Inl Cv2Error, heap))"

subsection \<open>Strings\<close>

text \<open>
  Format names are ASCII. \<open>upper\<close> is \<open>str.upper\<close> on ASCII letters, and
  \<open>py_in p s\<close> is Python's \<open>p in s\<close> on strings: \<open>p\<close> occurs in \<open>s\<close> as a
  contiguous run.
\<close>

definition upper_char :: "char \<Rightarrow> char" where
  "upper_char c =
     (let n = (of_char c :: nat) in if 97 \<le> n \<and> n \<le> 122 then char_of (n - 32) else c)"

definition upper :: "string \<Rightarrow> string" where
  "upper s = map upper_char s"

fun py_in :: "string \<Rightarrow> string \<Rightarrow> bool" where
  "py_in p [] = (p = [])"
| "py_in p (c # s) = (prefix p (c # s) \<or> py_in p s)"

subsection \<open>convert\_image\_to\_bgr\<close>

text \<open>
  A fetched image: its number, its incomplete flag, the array \<open>GetNDArray\<close> gives and
  what \<open>GetPixelFormatName\<close> does, which is to return a name or to raise (an SDK
  without that method raises \<open>AttributeError\<close>, which the function catches).
\<close>

record image_result =
  frame_id :: nat
  IsIncomplete :: bool
  NDArray :: ndarray
  PixelFormatName :: "exn + string"

text \<open>
  The function is the same text in lab2-1\_single\_frame.py and
  lab2-2\_realtime\_with\_save.py. It returns the reference of \<open>frame_bgr\<close> or the
  exception raised, the store afterwards, and what it did.
\<close>

definition generic_conversion :: "ndarray \<Rightarrow> conversion" where
  "generic_conversion a = (if ndim a = 2 then COLOR_GRAY2BGR else COLOR_RGB2BGR)"

text \<open>
  One statement \<open>frame_bgr = cv2.cvtColor(img, code)\<close>: the call, recorded after what
  the function has done so far.
\<close>

definition call_cvtColor ::
  "demosaic \<Rightarrow> heap \<Rightarrow> nat \<Rightarrow> event list \<Rightarrow> conversion \<Rightarrow> (exn + nat) \<times> heap \<times> event list" where
  "call_cvtColor dm heap1 img evs code =
     (case cvtColor dm heap1 img code of (r, heap2) \<Rightarrow> (r, heap2, evs @ [CvtColor code]))"

definition convert_image_to_bgr ::
  "demosaic \<Rightarrow> image_result \<Rightarrow> heap \<Rightarrow> (exn + nat) \<times> heap \<times> event list" where
  "convert_image_to_bgr dm image_result heap =
     (let img = length heap;
          heap1 = heap @ [NDArray image_result];
          ev0 = [GetNDArray (frame_id image_result)]
      in case PixelFormatName image_result of
           Inl e \<Rightarrow>
             if e = AttributeError
             then call_cvtColor dm heap1 img
                    (ev0 @ [Print WARN ''PixelFormat ({pixel_format}) without name. Using generic conversion.''])
                    (generic_conversion (NDArray image_result))
             else (Inl e, heap1, ev0)
         | Inr fmt_name \<Rightarrow>
             (let fmt_name_upper = upper fmt_name in
              if py_in ''MONO8'' fmt_name_upper
              then call_cvtColor dm heap1 img ev0 COLOR_GRAY2BGR
              else if py_in ''RGB8'' fmt_name_upper
              then call_cvtColor dm heap1 img ev0 COLOR_RGB2BGR
              else if py_in ''BGR8'' fmt_name_upper
              then (Inr img, heap1, ev0)
              else if py_in ''BAYERRG8'' fmt_name_upper
              then call_cvtColor dm heap1 img ev0 COLOR_BAYER_RG2BGR
              else if py_in ''BAYERGB8'' fmt_name_upper
              then call_cvtColor dm heap1 img ev0 COLOR_BAYER_GB2BGR
              else if py_in ''BAYERGR8'' fmt_name_upper
              then call_cvtColor dm heap1 img ev0 COLOR_BAYER_GR2BGR
              else if py_in ''BAYERBG8'' fmt_name_upper
              then call_cvtColor dm heap1 img ev0 COLOR_BAYER_BG2BGR
              else call_cvtColor dm heap1 img
                     (ev0 @ [Print WARN (''Unhandled PixelFormat name '' @ fmt_name @ ''. Using generic conversion.'')])
                     (generic_conversion (NDArray image_result))))"

section \<open>The capture flows\<close>

subsection \<open>The environment\<close>

text \<open>
  One tick is what the outside world delivers to one pass of the capture loop: what
  \<open>GetNextImage\<close> does (returns an image or raises), the local time read when a frame
  is saved, and what \<open>cv2.waitKey(1)\<close> returns. The script of a run is a finite list of
  ticks, a prefix of what the world would deliver; a flow that has used it up has not
  returned, and its result is \<open>None\<close>.
\<close>

record struct_time =
  tm_year :: nat
  tm_mon :: nat
  tm_mday :: nat
  tm_hour :: nat
  tm_min :: nat
  tm_sec :: nat

record tick =
  fetch :: "exn + image_result"
  localtime :: struct_time
  waitKey :: int

text \<open>
  The world of a run: how many cameras the SDK lists, the node map of the first one, which
  SDK calls raise \<open>SpinnakerException\<close>, the directories that exist, the pixel arithmetic
  of the imaging library that the model leaves open, and the script.
\<close>

record world =
  num_cameras :: nat
  device :: camera
  Init_raises :: bool
  BeginAcquisition_raises :: bool
  EndAcquisition_raises :: bool
  DeInit_raises :: bool
  Clear_raises :: bool
  ReleaseInstance_raises :: bool
  existing_dirs :: "string list"
  bayer :: demosaic
  draw_text :: "ndarray \<Rightarrow> ndarray"
  ticks :: "tick list"

record state =
  trace :: "event list"
  store :: heap
  nodes :: camera
  streaming :: bool
  dirs :: "string list"

definition emit :: "event list \<Rightarrow> state \<Rightarrow> state" where
  "emit evs s = s\<lparr>trace := trace s @ evs\<rparr>"

subsection \<open>File names\<close>

text \<open>
  \<open>time.strftime("%Y%m%d_%H%M%S")\<close> and the format \<open>{frame_count:06d}\<close>: decimal
  digits, padded with zeros on the left to the given width.
\<close>

definition digit_char :: "nat \<Rightarrow> char" where
  "digit_char d = char_of (48 + d)"

fun decimal :: "nat \<Rightarrow> string" where
  "decimal n = (if n < 10 then [digit_char n] else decimal (n div 10) @ [digit_char (n mod 10)])"

declare decimal.simps [simp del]

definition zero_pad :: "nat \<Rightarrow> nat \<Rightarrow> string" where
  "zero_pad width n = replicate (width - length (decimal n)) (CHR ''0'') @ decimal n"

definition strftime :: "struct_time \<Rightarrow> string" where
  "strftime t =
     zero_pad 4 (tm_year t) @ zero_pad 2 (tm_mon t) @ zero_pad 2 (tm_mday t) @ ''_'' @
     zero_pad 2 (tm_hour t) @ zero_pad 2 (tm_min t) @ zero_pad 2 (tm_sec t)"

definition frame_filename :: "struct_time \<Rightarrow> nat \<Rightarrow> string" where
  "frame_filename t frame_count =
     ''frame_'' @ strftime t @ ''_'' @ zero_pad 6 frame_count @ ''.png''"

definition path_join :: "string \<Rightarrow> string \<Rightarrow> string" where
  "path_join a b =
     (if b \<noteq> [] \<and> hd b = CHR ''/'' then b
      else if a = [] \<or> last a = CHR ''/'' then a @ b
      else a @ ''/'' @ b)"

definition makedirs :: "string \<Rightarrow> state \<Rightarrow> state" where
  "makedirs d s =
     emit [MakeDirs d] (if d \<in> set (dirs s) then s else s\<lparr>dirs := d # dirs s\<rparr>)"

subsection \<open>The loop of realtime\_view\_and\_save\<close>

text \<open>
  One pass of \<open>while True\<close>. \<open>Continue\<close> is reaching the end of the body or
  \<open>continue\<close>, with the frame count and the state for the next pass; \<open>Stop\<close> is
  \<open>break\<close> (\<open>Inr ()\<close>) or an exception leaving the loop. \<open>GetNextImage\<close> on a
  camera that is not streaming raises. \<open>frame_count % save_every_n_frames\<close> raises
  \<open>ZeroDivisionError\<close> when the cadence is 0. \<open>cv2.putText\<close> draws into the array
  \<open>frame_bgr\<close> refers to.
\<close>

datatype pass = Continue nat (after: state) | Stop "exn + unit" (after: state)

definition loop_body :: "world \<Rightarrow> string \<Rightarrow> int \<Rightarrow> tick \<Rightarrow> nat \<Rightarrow> state \<Rightarrow> pass" where
  "loop_body w output_dir save_every_n_frames t frame_count s =
     (case (if streaming s then fetch t else Inl SpinnakerException) of
        Inl e \<Rightarrow> Stop (Inl e) (emit [GetNextImage (Inl e)] s)
      | Inr image_result \<Rightarrow>
          (let fid = frame_id image_result;
               s1 = emit [GetNextImage (Inr fid)] s
           in if IsIncomplete image_result
              then Continue frame_count
                     (emit [Print WARN ''Incomplete image. Status: {}'', Release fid] s1)
              else
                (case convert_image_to_bgr (bayer w) image_result (store s1) of
                   (Inl e, heap2, evs) \<Rightarrow> Stop (Inl e) (emit evs (s1\<lparr>store := heap2\<rparr>))
                 | (Inr frame_bgr, heap2, evs) \<Rightarrow>
                     (let s2 = emit (evs @ [Release fid]) (s1\<lparr>store := heap2\<rparr>);
                          frame_count1 = frame_count + 1;
                          s3 = emit [PutText frame_bgr]
                                 (s2\<lparr>store := (store s2)[frame_bgr := draw_text w (store s2 ! frame_bgr)]\<rparr>)
                      in if save_every_n_frames = 0 then Stop (Inl ZeroDivisionError) s3
                         else
                           (let s4 =
                                  (if int frame_count1 mod save_every_n_frames = 0
                                   then emit
                                          [ImWrite (path_join output_dir
                                                      (frame_filename (localtime t) frame_count1))
                                                   frame_bgr,
                                           Print INFO ''Saved frame #{frame_count} -> {save_path}'']
                                          s3
                                   else s3);
                                s5 = emit [ImShow frame_bgr, WaitKey] s4;
                                key = waitKey t AND 255
                            in if key = 113
                               then Stop (Inr ()) (emit [Print INFO ''q pressed. Exiting loop.''] s5)
                               else Continue frame_count1 s5)))))"

fun capture_loop ::
  "world \<Rightarrow> string \<Rightarrow> int \<Rightarrow> tick list \<Rightarrow> nat \<Rightarrow> state \<Rightarrow> (exn + unit) option \<times> state" where
  "capture_loop w output_dir n [] frame_count s = (None, s)"
| "capture_loop w output_dir n (t # rest) frame_count s =
     (case loop_body w output_dir n t frame_count s of
        Stop r s' \<Rightarrow> (Some r, s')
      | Continue frame_count' s' \<Rightarrow> capture_loop w output_dir n rest frame_count' s')"

subsection \<open>start\_continuous\_mode\<close>

text \<open>
  \<open>GetEntryByName\<close> gives a null pointer for a name the enumeration does not have, and
  \<open>GetValue\<close> on it raises.
\<close>

definition select_mode :: "string \<Rightarrow> state \<Rightarrow> (exn + unit) \<times> state" where
  "select_mode name s =
     (case GetEntryByName (AcquisitionMode (nodes s)) name of
        None \<Rightarrow> (Inl SpinnakerException, s)
      | Some entry \<Rightarrow>
          (Inr (),
           emit [SetIntValue ''AcquisitionMode'' (e_val entry)]
             (s\<lparr>nodes := (nodes s)\<lparr>AcquisitionMode :=
                       (AcquisitionMode (nodes s))\<lparr>en_current := e_val entry\<rparr>\<rparr>\<rparr>)))"

definition begin_acquisition :: "world \<Rightarrow> state \<Rightarrow> (exn + unit) \<times> state" where
  "begin_acquisition w s =
     (if BeginAcquisition_raises w then (Inl SpinnakerException, emit [BeginAcquisition] s)
      else (Inr (), emit [BeginAcquisition] (s\<lparr>streaming := True\<rparr>)))"

definition start_continuous_mode :: "world \<Rightarrow> state \<Rightarrow> (exn + unit) \<times> state" where
  "start_continuous_mode w s =
     (if \<not> en_writable (AcquisitionMode (nodes s))
      then (Inr (), emit [Print ERROR ''Cannot set AcquisitionMode to Continuous.''] s)
      else
        (case select_mode ''Continuous'' s of
           (Inl e, s1) \<Rightarrow> (Inl e, s1)
         | (Inr _, s1) \<Rightarrow>
             (case begin_acquisition w s1 of
                (Inl e, s2) \<Rightarrow> (Inl e, s2)
              | (Inr _, s2) \<Rightarrow> (Inr (), emit [Print INFO ''Acquisition mode: Continuous''] s2))))"

subsection \<open>realtime\_view\_and\_save\<close>

text \<open>
  \<open>EndAcquisition\<close> raises on a camera that is not streaming. A step of the
  \<open>finally\<close> block that raises ends the block there, and its exception leaves the
  function in place of whatever the \<open>try\<close> block ended with.
\<close>

definition end_acquisition :: "world \<Rightarrow> state \<Rightarrow> (exn + unit) \<times> state" where
  "end_acquisition w s =
     (if \<not> streaming s \<or> EndAcquisition_raises w
      then (Inl SpinnakerException, emit [EndAcquisition] s)
      else (Inr (), emit [EndAcquisition] (s\<lparr>streaming := False\<rparr>)))"

definition release_all :: "world \<Rightarrow> state \<Rightarrow> (exn + unit) \<times> state" where
  "release_all w s =
     (let s1 = emit [DeInit] s in
      if DeInit_raises w then (Inl SpinnakerException, s1)
      else
        (let s2 = emit [ClearList] s1 in
         if Clear_raises w then (Inl SpinnakerException, s2)
         else
           (let s3 = emit [ReleaseInstance] s2 in
            if ReleaseInstance_raises w then (Inl SpinnakerException, s3)
            else (Inr (), s3))))"

definition cleanup :: "world \<Rightarrow> state \<Rightarrow> (exn + unit) \<times> state" where
  "cleanup w s =
     (let s1 = snd (end_acquisition w s) in
      case release_all w s1 of
        (Inl e, s2) \<Rightarrow> (Inl e, s2)
      | (Inr _, s2) \<Rightarrow> (Inr (), emit [DestroyAllWindows, Print INFO ''Cleanup done.''] s2))"

definition no_camera :: "world \<Rightarrow> state \<Rightarrow> (exn + unit) \<times> state" where
  "no_camera w s =
     (let s1 = emit [Print ERROR ''No FLIR cameras found.'', ClearList] s in
      if Clear_raises w then (Inl SpinnakerException, s1)
      else
        (let s2 = emit [ReleaseInstance] s1 in
         if ReleaseInstance_raises w then (Inl SpinnakerException, s2) else (Inr (), s2)))"

definition setup_pixel_format :: "state \<Rightarrow> state" where
  "setup_pixel_format s =
     (let s1 = emit (Print INFO ''Before setting PixelFormat:'' # debug_pixel_format (nodes s)) s;
          (cam2, evs) = set_pixel_format (nodes s1);
          s2 = emit evs (s1\<lparr>nodes := cam2\<rparr>)
      in emit (Print INFO ''After setting PixelFormat:'' # debug_pixel_format (nodes s2)) s2)"

definition realtime_try ::
  "world \<Rightarrow> string \<Rightarrow> int \<Rightarrow> int \<Rightarrow> int \<Rightarrow> real \<Rightarrow> state \<Rightarrow> (exn + unit) option \<times> state" where
  "realtime_try w output_dir save_every_n_frames width height fps s =
     (let s1 = emit [Init] s in
      if Init_raises w then (Some (Inl SpinnakerException), s1)
      else
        (let s2 = setup_pixel_format s1;
             (cam3, evs) = configure_camera_resolution_fps (nodes s2) width height fps;
             s3 = emit evs (s2\<lparr>nodes := cam3\<rparr>)
         in case start_continuous_mode w s3 of
              (Inl e, s4) \<Rightarrow> (Some (Inl e), s4)
            | (Inr _, s4) \<Rightarrow>
                capture_loop w output_dir save_every_n_frames (ticks w) 0
                  (emit [Print INFO ''Start realtime streaming. Press q to quit.'',
                         Print INFO ''Auto save: every {save_every_n_frames} frames to directory: {output_dir}'']
                     s4)))"

definition initial_state :: "world \<Rightarrow> state" where
  "initial_state w =
     \<lparr>trace = [], store = [], nodes = device w, streaming = False, dirs = existing_dirs w\<rparr>"

definition realtime_view_and_save ::
  "world \<Rightarrow> string \<Rightarrow> int \<Rightarrow> int \<Rightarrow> int \<Rightarrow> real \<Rightarrow> (exn + unit) option \<times> state" where
  "realtime_view_and_save w output_dir save_every_n_frames width height fps =
     (let s0 = emit [GetInstance, GetCameras] (makedirs output_dir (initial_state w)) in
      if num_cameras w = 0
      then (case no_camera w s0 of (r, s1) \<Rightarrow> (Some r, s1))
      else
        (case realtime_try w output_dir save_every_n_frames width height fps s0 of
           (None, s1) \<Rightarrow> (None, s1)
         | (Some r, s1) \<Rightarrow>
             (case cleanup w s1 of
                (Inl e, s2) \<Rightarrow> (Some (Inl e), s2)
              | (Inr _, s2) \<Rightarrow> (Some r, s2))))"

subsection \<open>acquire\_single\_frame and lab2\_single\_frame\<close>

text \<open>
  The \<open>try\<close> block of \<open>acquire_single_frame\<close>: the frame's reference, \<open>None\<close>
  for an incomplete image, or the exception raised.
\<close>

definition single_try :: "world \<Rightarrow> tick \<Rightarrow> state \<Rightarrow> (exn + nat option) \<times> state" where
  "single_try w t s =
     (case (if streaming s then fetch t else Inl SpinnakerException) of
        Inl e \<Rightarrow> (Inl e, emit [GetNextImage (Inl e)] s)
      | Inr image_result \<Rightarrow>
          (let fid = frame_id image_result;
               s1 = emit [GetNextImage (Inr fid)] s
           in if IsIncomplete image_result
              then (Inr None, emit [Print WARN ''Image incomplete. Status: {}'', Release fid] s1)
              else
                (case convert_image_to_bgr (bayer w) image_result (store s1) of
                   (Inl e, heap2, evs) \<Rightarrow> (Inl e, emit evs (s1\<lparr>store := heap2\<rparr>))
                 | (Inr frame, heap2, evs) \<Rightarrow>
                     (Inr (Some frame), emit (evs @ [Release fid]) (s1\<lparr>store := heap2\<rparr>)))))"

definition acquire_single_frame :: "world \<Rightarrow> state \<Rightarrow> (exn + nat option) option \<times> state" where
  "acquire_single_frame w s =
     (if \<not> en_writable (AcquisitionMode (nodes s))
      then (Some (Inr None), emit [Print ERROR ''Cannot set AcquisitionMode.''] s)
      else
        (case select_mode ''SingleFrame'' s of
           (Inl e, s1) \<Rightarrow> (Some (Inl e), s1)
         | (Inr _, s1) \<Rightarrow>
             (case begin_acquisition w s1 of
                (Inl e, s2) \<Rightarrow> (Some (Inl e), s2)
              | (Inr _, s2) \<Rightarrow>
                  (case ticks w of
                     [] \<Rightarrow> (None, s2)
                   | t # _ \<Rightarrow>
                       (case single_try w t s2 of
                          (r, s3) \<Rightarrow>
                            (case end_acquisition w s3 of
                               (Inl e, s4) \<Rightarrow> (Some (Inl e), s4)
                             | (Inr _, s4) \<Rightarrow> (Some r, s4)))))))"

definition single_frame_try :: "world \<Rightarrow> string \<Rightarrow> state \<Rightarrow> (exn + unit) option \<times> state" where
  "single_frame_try w output_path s =
     (let s1 = emit [Init] s in
      if Init_raises w then (Some (Inl SpinnakerException), s1)
      else
        (case acquire_single_frame w (setup_pixel_format s1) of
           (None, s2) \<Rightarrow> (None, s2)
         | (Some (Inl e), s2) \<Rightarrow> (Some (Inl e), s2)
         | (Some (Inr None), s2) \<Rightarrow>
             (Some (Inr ()), emit [Print ERROR ''Failed to acquire single frame.''] s2)
         | (Some (Inr (Some frame)), s2) \<Rightarrow>
             (Some (Inr ()),
              emit [ImWrite output_path frame,
                    Print INFO ''Saved single frame to: {output_path}''] s2)))"

definition lab2_single_frame :: "world \<Rightarrow> string \<Rightarrow> (exn + unit) option \<times> state" where
  "lab2_single_frame w output_path =
     (let s0 = emit [GetInstance, GetCameras] (initial_state w) in
      if num_cameras w = 0
      then (case no_camera w s0 of (r, s1) \<Rightarrow> (Some r, s1))
      else
        (case single_frame_try w output_path s0 of
           (None, s1) \<Rightarrow> (None, s1)
         | (Some r, s1) \<Rightarrow>
             (case release_all w s1 of
                (Inl e, s2) \<Rightarrow> (Some (Inl e), s2)
              | (Inr _, s2) \<Rightarrow> (Some r, s2))))"

section \<open>What the specification says, and devices to try it on\<close>

text \<open>
  The negotiated size in the specification's words: the request clamped to the interval
  from 0 to the device's maximum, then lowered by one if odd.
\<close>

definition spec_negotiated :: "int \<Rightarrow> int \<Rightarrow> int" where
  "spec_negotiated requested device_max =
     (let clamped = max 0 (min requested device_max)
      in if odd clamped then clamped - 1 else clamped)"

text \<open>
  \<open>IsReadable\<close> of the entry a name gives: False for the null pointer of a name the
  enumeration does not have.
\<close>

definition readable_by_name :: "enum_node \<Rightarrow> string \<Rightarrow> bool" where
  "readable_by_name node name =
     (case GetEntryByName node name of None \<Rightarrow> False | Some e \<Rightarrow> e_readable e)"

definition rw_node :: "int \<Rightarrow> int \<Rightarrow> int_node" where
  "rw_node mx v = \<lparr>i_readable = True, i_writable = True, i_max = mx, i_val = v\<rparr>"

definition ro_node :: "int \<Rightarrow> int \<Rightarrow> int_node" where
  "ro_node mx v = \<lparr>i_readable = True, i_writable = False, i_max = mx, i_val = v\<rparr>"

definition bench_formats :: enum_node where
  "bench_formats =
     \<lparr>en_readable = True, en_writable = True,
      en_entries = [(''BayerGB8'', \<lparr>e_readable = True, e_val = 7\<rparr>),
                    (''Mono8'', \<lparr>e_readable = True, e_val = 1\<rparr>),
                    (''RGB8Packed'', \<lparr>e_readable = False, e_val = 2\<rparr>)],
      en_current = 7\<rparr>"

definition bench_modes :: enum_node where
  "bench_modes =
     \<lparr>en_readable = True, en_writable = True,
      en_entries = [(''Continuous'', \<lparr>e_readable = True, e_val = 0\<rparr>),
                    (''SingleFrame'', \<lparr>e_readable = True, e_val = 1\<rparr>)],
      en_current = 0\<rparr>"

definition bench_camera :: camera where
  "bench_camera =
     \<lparr>PixelFormat = bench_formats, AcquisitionMode = bench_modes,
      Width = rw_node 1441 640, Height = rw_node 1080 480,
      OffsetX = rw_node 10 0, OffsetY = rw_node 20 0,
      AcquisitionFrameRateEnable = \<lparr>b_writable = True, b_val = False\<rparr>,
      AcquisitionFrameRate = \<lparr>f_readable = True, f_writable = True, f_max = 60, f_val = 15\<rparr>\<rparr>"



text \<open>
  A frame normalizes when \<open>convert_image_to_bgr\<close> returns an array for it rather than
  raising.
\<close>

definition normalizes :: "demosaic \<Rightarrow> image_result \<Rightarrow> bool" where
  "normalizes dm im = (case fst (convert_image_to_bgr dm im []) of Inl e \<Rightarrow> False | Inr r \<Rightarrow> True)"

text \<open>Frames: two by two pixels, with the name the camera gives their format.\<close>

definition flat_demosaic :: demosaic where
  "flat_demosaic = (\<lambda>code h w d. gray2bgr d)"

definition gb_frame :: image_result where
  "gb_frame =
     \<lparr>frame_id = 0, IsIncomplete = False, NDArray = Arr2 2 2 [10, 20, 30, 40],
      PixelFormatName = Inr ''BayerGB8''\<rparr>"




definition bgr_frame :: image_result where
  "bgr_frame =
     \<lparr>frame_id = 0, IsIncomplete = False,
      NDArray = Arr3 2 2 3 [1, 2, 3, 4, 5, 6, 7, 8, 9, 10, 11, 12],
      PixelFormatName = Inr ''BGR8''\<rparr>"

definition mono_frame :: image_result where
  "mono_frame =
     \<lparr>frame_id = 0, IsIncomplete = False, NDArray = Arr2 2 2 [10, 20, 30, 40],
      PixelFormatName = Inr ''Mono8''\<rparr>"

text \<open>
  The same camera with its pixel format, its width and its vertical offset locked; it
  stays in the format it is in, BayerGB8.
\<close>

definition locked_camera :: camera where
  "locked_camera =
     bench_camera\<lparr>Width := ro_node 1441 640, OffsetY := ro_node 20 0,
                  PixelFormat := bench_formats\<lparr>en_writable := False\<rparr>\<rparr>"

text \<open>
  What a call leaves behind, whatever branch it took: the input array appended to the
  store, at most one further array, and a record that begins with \<open>GetNDArray\<close> and
  goes on with warnings and conversions only.
\<close>

definition tidy :: "image_result \<Rightarrow> heap \<Rightarrow> (exn + nat) \<times> heap \<times> event list \<Rightarrow> bool" where
  "tidy im heap x =
     (case x of (r, heap', evs) \<Rightarrow>
        (heap' = heap @ [NDArray im] \<and> (r = Inr (length heap) \<or> (\<exists>e. r = Inl e)) \<or>
         r = Inr (Suc (length heap)) \<and> (\<exists>dst. heap' = heap @ [NDArray im, dst])) \<and>
        (\<exists>rest. evs = GetNDArray (frame_id im) # rest \<and>
           (\<forall>e \<in> set rest. (\<exists>t. e = Print WARN t) \<or> (\<exists>c. e = CvtColor c))))"

text \<open>Whether a call returns or raises does not depend on the store it starts from.\<close>

definition verdict :: "(exn + nat) \<times> heap \<times> event list \<Rightarrow> exn + unit" where
  "verdict x = (case fst x of Inl e \<Rightarrow> Inl e | Inr r \<Rightarrow> Inr ())"

text \<open>
  Reading a trace: the frames fetched, the frames released, the paths written, each in the
  order of the trace.
\<close>

fun fetched_of :: "event \<Rightarrow> nat list" where
  "fetched_of (GetNextImage (Inr fid)) = [fid]"
| "fetched_of _ = []"

fun released_of :: "event \<Rightarrow> nat list" where
  "released_of (Release fid) = [fid]"
| "released_of _ = []"

fun written_of :: "event \<Rightarrow> string list" where
  "written_of (ImWrite path frame) = [path]"
| "written_of _ = []"

definition fetched :: "event list \<Rightarrow> nat list" where
  "fetched evs = concat (map fetched_of evs)"

definition released :: "event list \<Rightarrow> nat list" where
  "released evs = concat (map released_of evs)"

definition saved_paths :: "event list \<Rightarrow> string list" where
  "saved_paths evs = concat (map written_of evs)"

text \<open>The four calls of the teardown, and the calls that hand a frame to the normalizer.\<close>

fun teardown_call :: "event \<Rightarrow> bool" where
  "teardown_call EndAcquisition = True"
| "teardown_call DeInit = True"
| "teardown_call ClearList = True"
| "teardown_call ReleaseInstance = True"
| "teardown_call _ = False"

fun normalizer_or_save :: "event \<Rightarrow> bool" where
  "normalizer_or_save (GetNDArray fid) = True"
| "normalizer_or_save (CvtColor code) = True"
| "normalizer_or_save (ImWrite path frame) = True"
| "normalizer_or_save _ = False"

text \<open>
  Events of the setup: printed lines, node writes and the calls that open the session, the
  device and the stream. Events of the loop: what one pass may do.
\<close>

fun setup_event :: "event \<Rightarrow> bool" where
  "setup_event (Print l t) = True"
| "setup_event (SetValue name v) = True"
| "setup_event (SetBool name b) = True"
| "setup_event (SetFloat name x) = True"
| "setup_event (SetIntValue name v) = True"
| "setup_event (MakeDirs d) = True"
| "setup_event GetInstance = True"
| "setup_event GetCameras = True"
| "setup_event Init = True"
| "setup_event BeginAcquisition = True"
| "setup_event _ = False"

fun loop_event :: "event \<Rightarrow> bool" where
  "loop_event (Print l t) = True"
| "loop_event (GetNextImage r) = True"
| "loop_event (GetNDArray fid) = True"
| "loop_event (Release fid) = True"
| "loop_event (CvtColor code) = True"
| "loop_event (PutText frame) = True"
| "loop_event (ImWrite path frame) = True"
| "loop_event (ImShow frame) = True"
| "loop_event WaitKey = True"
| "loop_event _ = False"

text \<open>
  A state extends another by events of a kind: its trace is the other's, followed by
  events that all are of that kind.
\<close>

definition extends :: "(event \<Rightarrow> bool) \<Rightarrow> state \<Rightarrow> state \<Rightarrow> bool" where
  "extends P s s' = (\<exists>E. trace s' = trace s @ E \<and> (\<forall>e \<in> set E. P e))"

text \<open>
  The \<open>finally\<close> block of \<open>realtime_view_and_save\<close> as a trace: the stop and the close
  are always attempted, and each later step only if the step before it did not raise.
\<close>

definition teardown_trace :: "world \<Rightarrow> event list" where
  "teardown_trace w =
     [EndAcquisition, DeInit] @
     (if DeInit_raises w then []
      else ClearList #
        (if Clear_raises w then []
         else ReleaseInstance #
           (if ReleaseInstance_raises w then []
            else [DestroyAllWindows, Print INFO ''Cleanup done.''])))"

text \<open>
  A tick is harmless for the release discipline when its fetch raises, or its frame is
  incomplete, or its frame normalizes.
\<close>

definition complete_tick :: "tick \<Rightarrow> bool" where
  "complete_tick t = (case fetch t of Inl e \<Rightarrow> False | Inr im \<Rightarrow> \<not> IsIncomplete im)"


text \<open>
  A tick that keeps the loop running: an image arrives, it is incomplete or it normalizes,
  and the key is not q. A closing tick: a complete image that normalizes, and the key q.
\<close>

definition q_pressed :: "tick \<Rightarrow> bool" where
  "q_pressed t = (waitKey t AND 255 = 113)"

definition running_tick :: "world \<Rightarrow> tick \<Rightarrow> bool" where
  "running_tick w t =
     (case fetch t of
        Inl e \<Rightarrow> False
      | Inr im \<Rightarrow> IsIncomplete im \<or> (normalizes (bayer w) im \<and> \<not> q_pressed t))"

definition closing_tick :: "world \<Rightarrow> tick \<Rightarrow> bool" where
  "closing_tick w t =
     (case fetch t of
        Inl e \<Rightarrow> False
      | Inr im \<Rightarrow> \<not> IsIncomplete im \<and> normalizes (bayer w) im \<and> q_pressed t)"

text \<open>
  The save policy in the specification's words: of the frames produced, counted from one
  after \<open>frame_count\<close>, every one whose count is a multiple of the cadence is written,
  under the name made from the time of its tick and its count.
\<close>

fun policy_saves :: "string \<Rightarrow> int \<Rightarrow> nat \<Rightarrow> tick list \<Rightarrow> string list" where
  "policy_saves output_dir n frame_count [] = []"
| "policy_saves output_dir n frame_count (t # ts) =
     (if int (Suc frame_count) mod n = 0
      then [path_join output_dir (frame_filename (localtime t) (Suc frame_count))]
      else []) @
     policy_saves output_dir n (Suc frame_count) ts"

definition is_digit :: "char \<Rightarrow> bool" where
  "is_digit c = (48 \<le> (of_char c :: nat) \<and> (of_char c :: nat) \<le> 57)"

definition calendar_time :: "struct_time \<Rightarrow> bool" where
  "calendar_time t =
     (1000 \<le> tm_year t \<and> tm_year t < 10000 \<and> tm_mon t < 100 \<and> tm_mday t < 100 \<and>
      tm_hour t < 100 \<and> tm_min t < 100 \<and> tm_sec t < 100)"

text \<open>Worlds to run the flows in.\<close>

definition noon :: struct_time where
  "noon = \<lparr>tm_year = 2025, tm_mon = 3, tm_mday = 9, tm_hour = 12, tm_min = 0, tm_sec = 5\<rparr>"

definition tick_of :: "image_result \<Rightarrow> int \<Rightarrow> tick" where
  "tick_of im key = \<lparr>fetch = Inr im, localtime = noon, waitKey = key\<rparr>"

definition incomplete_frame :: image_result where
  "incomplete_frame = mono_frame\<lparr>frame_id := 1, IsIncomplete := True\<rparr>"

definition bench_world :: world where
  "bench_world =
     \<lparr>num_cameras = 1, device = bench_camera, Init_raises = False,
      BeginAcquisition_raises = False, EndAcquisition_raises = False, DeInit_raises = False,
      Clear_raises = False, ReleaseInstance_raises = False, existing_dirs = [],
      bayer = flat_demosaic, draw_text = (\<lambda>a. a), ticks = []\<rparr>"

text \<open>
  A camera whose acquisition mode cannot be written, so that the stream is never started;
  a device whose close raises; a camera locked in BayerGB8 delivering one frame; a first
  frame that arrives incomplete; and thirty-five frames with q pressed on the last.
\<close>

definition never_started_world :: world where
  "never_started_world =
     bench_world\<lparr>device := bench_camera\<lparr>AcquisitionMode := bench_modes\<lparr>en_writable := False\<rparr>\<rparr>,
                 ticks := [tick_of mono_frame 113]\<rparr>"

definition stuck_close_world :: world where
  "stuck_close_world = bench_world\<lparr>DeInit_raises := True, ticks := [tick_of mono_frame 113]\<rparr>"


definition incomplete_world :: world where
  "incomplete_world = bench_world\<lparr>ticks := [tick_of incomplete_frame (- 1)]\<rparr>"

definition steady_world :: world where
  "steady_world =
     bench_world\<lparr>ticks := replicate 34 (tick_of mono_frame (- 1)) @ [tick_of mono_frame 113]\<rparr>"


section \<open>Negotiating the capture parameters\<close>

lemma configure_fst_Width:
  "Width (fst (configure_camera_resolution_fps c width height fps)) =
   Width (fst (configure_resolution c width height))"
  by (simp add: configure_camera_resolution_fps_def center_roi_def configure_frame_rate_def
      Let_def split: prod.splits if_splits)

lemma configure_fst_Height:
  "Height (fst (configure_camera_resolution_fps c width height fps)) =
   Height (fst (configure_resolution c width height))"
  by (simp add: configure_camera_resolution_fps_def center_roi_def configure_frame_rate_def
      Let_def split: prod.splits if_splits)

lemma configure_snd:
  "snd (configure_camera_resolution_fps c width height fps) =
   snd (configure_resolution c width height) @
   snd (center_roi (fst (configure_resolution c width height))) @
   snd (configure_frame_rate (fst (center_roi (fst (configure_resolution c width height)))) fps) @
   [Print CHECK ''Applied resolution: {current_width} x {current_height}, FPS: {current_fps:.2f}'']"
  by (simp add: configure_camera_resolution_fps_def split: prod.splits)

lemma even_down_alt: "even_down v = v - v mod 2"
  unfolding even_down_def by presburger

lemma configure_fst_OffsetX:
  "OffsetX (fst (configure_camera_resolution_fps c width height fps)) = OffsetX (fst (center_roi c))"
  by (simp add: configure_camera_resolution_fps_def center_roi_def configure_frame_rate_def
      configure_resolution_def Let_def split: prod.splits if_splits)

lemma configure_fst_OffsetY:
  "OffsetY (fst (configure_camera_resolution_fps c width height fps)) = OffsetY (fst (center_roi c))"
  by (simp add: configure_camera_resolution_fps_def center_roi_def configure_frame_rate_def
      configure_resolution_def Let_def split: prod.splits if_splits)

lemma center_roi_skipped:
  "\<not> (i_writable (OffsetX c) \<and> i_writable (OffsetY c)) \<Longrightarrow> center_roi c = (c, [])"
  by (auto simp: center_roi_def)

lemma resolution_keeps_offsets:
  "OffsetX (fst (configure_resolution c width height)) = OffsetX c"
  "OffsetY (fst (configure_resolution c width height)) = OffsetY c"
  by (simp_all add: configure_resolution_def Let_def)

lemma try_formats_find:
  "try_formats node names =
     (case find (readable_by_name node) names of
        None \<Rightarrow> None
      | Some n \<Rightarrow>
          (case GetEntryByName node n of
             None \<Rightarrow> None
           | Some e \<Rightarrow> Some (node\<lparr>en_current := e_val e\<rparr>,
                             [SetIntValue ''PixelFormat'' (e_val e),
                              Print INFO (''PixelFormat set to '' @ n)])))"
  by (induction names) (auto simp: readable_by_name_def split: option.splits)


text \<open>
  C4, as the specification states it, fails for a negative request: the code bounds the
  request from above only (\<open>min(width, max_w)\<close>), so a request of -5 on a writable
  device is negotiated to -6, where clamping to the interval from 0 to the maximum would
  give 0.
\<close>

theorem C4_counterexample:
  "i_val (Width (fst (configure_camera_resolution_fps bench_camera (- 5) 721 30))) = - 6 \<and>
   spec_negotiated (- 5) (i_max (Width bench_camera)) = 0 \<and>
   i_val (Width (fst (configure_camera_resolution_fps bench_camera (- 5) 721 30))) \<noteq>
     spec_negotiated (- 5) (i_max (Width bench_camera))"
  by (simp add: configure_fst_Width configure_resolution_def bench_camera_def rw_node_def
      even_down_def spec_negotiated_def)


text \<open>
  C4, amended. When the width and height nodes are both writable, the negotiated value of
  each is the smaller of the request and the device's maximum, lowered by one if odd. For a
  request that is not negative this is the request clamped to the interval from 0 to the
  maximum and then lowered by one if odd; for a request above the maximum it is the
  maximum rounded down to even; for an odd request within the maximum it is the request
  minus one. When either node is not writable, both nodes keep their values, and the
  resolution block does nothing but print one warning.
\<close>

theorem C4_size:
  "(i_writable (Width c) \<and> i_writable (Height c) \<longrightarrow>
      (let c' = fst (configure_camera_resolution_fps c width height fps);
           w' = min width (i_max (Width c));
           h' = min height (i_max (Height c))
       in i_val (Width c') = w' - w' mod 2 \<and>
          i_val (Height c') = h' - h' mod 2 \<and>
          (0 \<le> width \<and> 0 \<le> i_max (Width c) \<longrightarrow>
             i_val (Width c') = spec_negotiated width (i_max (Width c))) \<and>
          (0 \<le> height \<and> 0 \<le> i_max (Height c) \<longrightarrow>
             i_val (Height c') = spec_negotiated height (i_max (Height c))) \<and>
          (i_max (Width c) < width \<longrightarrow>
             i_val (Width c') = i_max (Width c) - i_max (Width c) mod 2) \<and>
          (i_max (Height c) < height \<longrightarrow>
             i_val (Height c') = i_max (Height c) - i_max (Height c) mod 2) \<and>
          (odd width \<and> width \<le> i_max (Width c) \<longrightarrow> i_val (Width c') = width - 1) \<and>
          (odd height \<and> height \<le> i_max (Height c) \<longrightarrow> i_val (Height c') = height - 1))) \<and>
   (\<not> (i_writable (Width c) \<and> i_writable (Height c)) \<longrightarrow>
      configure_resolution c width height = (c, [Print WARN ''Width/Height not writable'']) \<and>
      Width (fst (configure_camera_resolution_fps c width height fps)) = Width c \<and>
      Height (fst (configure_camera_resolution_fps c width height fps)) = Height c \<and>
      snd (configure_camera_resolution_fps c width height fps) =
        Print WARN ''Width/Height not writable'' #
        snd (center_roi c) @ snd (configure_frame_rate (fst (center_roi c)) fps) @
        [Print CHECK ''Applied resolution: {current_width} x {current_height}, FPS: {current_fps:.2f}''])"
proof -
  have neg: "0 \<le> r \<Longrightarrow> 0 \<le> m \<Longrightarrow> spec_negotiated r m = min r m - min r m mod 2" for r m
    unfolding spec_negotiated_def Let_def by (simp add: odd_iff_mod_2_eq_one)
  have oddm: "odd r \<Longrightarrow> r - r mod 2 = r - 1" for r :: int
    by presburger
  have A: "i_writable (Width c) \<and> i_writable (Height c) \<Longrightarrow>
      i_val (Width (fst (configure_camera_resolution_fps c width height fps))) =
        min width (i_max (Width c)) - min width (i_max (Width c)) mod 2 \<and>
      i_val (Height (fst (configure_camera_resolution_fps c width height fps))) =
        min height (i_max (Height c)) - min height (i_max (Height c)) mod 2"
    by (simp add: configure_fst_Width configure_fst_Height configure_resolution_def Let_def
        even_down_alt)
  have B: "\<not> (i_writable (Width c) \<and> i_writable (Height c)) \<Longrightarrow>
      configure_resolution c width height = (c, [Print WARN ''Width/Height not writable''])"
    by (auto simp: configure_resolution_def)
  show ?thesis
  proof (intro conjI impI)
    assume w: "i_writable (Width c) \<and> i_writable (Height c)"
    show "let c' = fst (configure_camera_resolution_fps c width height fps);
           w' = min width (i_max (Width c));
           h' = min height (i_max (Height c))
       in i_val (Width c') = w' - w' mod 2 \<and>
          i_val (Height c') = h' - h' mod 2 \<and>
          (0 \<le> width \<and> 0 \<le> i_max (Width c) \<longrightarrow>
             i_val (Width c') = spec_negotiated width (i_max (Width c))) \<and>
          (0 \<le> height \<and> 0 \<le> i_max (Height c) \<longrightarrow>
             i_val (Height c') = spec_negotiated height (i_max (Height c))) \<and>
          (i_max (Width c) < width \<longrightarrow>
             i_val (Width c') = i_max (Width c) - i_max (Width c) mod 2) \<and>
          (i_max (Height c) < height \<longrightarrow>
             i_val (Height c') = i_max (Height c) - i_max (Height c) mod 2) \<and>
          (odd width \<and> width \<le> i_max (Width c) \<longrightarrow> i_val (Width c') = width - 1) \<and>
          (odd height \<and> height \<le> i_max (Height c) \<longrightarrow> i_val (Height c') = height - 1)"
      unfolding Let_def using A[OF w] by (auto simp: neg oddm min_def)
  next
    assume n: "\<not> (i_writable (Width c) \<and> i_writable (Height c))"
    show "configure_resolution c width height = (c, [Print WARN ''Width/Height not writable''])"
      by (rule B[OF n])
    show "Width (fst (configure_camera_resolution_fps c width height fps)) = Width c"
      by (simp add: configure_fst_Width B[OF n])
    show "Height (fst (configure_camera_resolution_fps c width height fps)) = Height c"
      by (simp add: configure_fst_Height B[OF n])
    show "snd (configure_camera_resolution_fps c width height fps) =
        Print WARN ''Width/Height not writable'' #
        snd (center_roi c) @ snd (configure_frame_rate (fst (center_roi c)) fps) @
        [Print CHECK ''Applied resolution: {current_width} x {current_height}, FPS: {current_fps:.2f}'']"
      by (simp add: configure_snd B[OF n])
  qed
qed



theorem C4_size_witness:
  "i_writable (Width bench_camera) \<and> i_writable (Height bench_camera) \<and>
   i_val (Width (fst (configure_camera_resolution_fps bench_camera 2001 721 30))) = 1440 \<and>
   i_val (Height (fst (configure_camera_resolution_fps bench_camera 2001 721 30))) = 720 \<and>
   \<not> (i_writable (Width locked_camera) \<and> i_writable (Height locked_camera)) \<and>
   Width (fst (configure_camera_resolution_fps locked_camera 2001 721 30)) = ro_node 1441 640 \<and>
   Height (fst (configure_camera_resolution_fps locked_camera 2001 721 30)) = rw_node 1080 480"
  using C4_size[of bench_camera 2001 721 30] C4_size[of locked_camera 2001 721 30]
  by (simp add: bench_camera_def locked_camera_def rw_node_def ro_node_def Let_def)

text \<open>
  C9. When the two offset nodes are both writable, each offset is set to the maximum the
  device reports for it, divided by two with integer division; maxima of 10 and 20 give
  offsets 5 and 10. When either is not writable, the centering block changes nothing and
  prints nothing: the offsets keep their values, and what the whole function does is what
  the resolution block and the frame-rate block do, followed by the closing line.
\<close>

theorem C9_centering:
  "(i_writable (OffsetX c) \<and> i_writable (OffsetY c) \<longrightarrow>
      (let c' = fst (configure_camera_resolution_fps c width height fps)
       in i_val (OffsetX c') = i_max (OffsetX c) div 2 \<and>
          i_val (OffsetY c') = i_max (OffsetY c) div 2 \<and>
          (i_max (OffsetX c) = 10 \<and> i_max (OffsetY c) = 20 \<longrightarrow>
             (i_val (OffsetX c'), i_val (OffsetY c')) = (5, 10)))) \<and>
   (\<not> (i_writable (OffsetX c) \<and> i_writable (OffsetY c)) \<longrightarrow>
      (let c1 = fst (configure_resolution c width height)
       in center_roi c1 = (c1, []) \<and>
          OffsetX (fst (configure_camera_resolution_fps c width height fps)) = OffsetX c \<and>
          OffsetY (fst (configure_camera_resolution_fps c width height fps)) = OffsetY c \<and>
          snd (configure_camera_resolution_fps c width height fps) =
            snd (configure_resolution c width height) @
            snd (configure_frame_rate c1 fps) @
            [Print CHECK ''Applied resolution: {current_width} x {current_height}, FPS: {current_fps:.2f}'']))"
proof (intro conjI impI)
  assume w: "i_writable (OffsetX c) \<and> i_writable (OffsetY c)"
  then show "let c' = fst (configure_camera_resolution_fps c width height fps)
       in i_val (OffsetX c') = i_max (OffsetX c) div 2 \<and>
          i_val (OffsetY c') = i_max (OffsetY c) div 2 \<and>
          (i_max (OffsetX c) = 10 \<and> i_max (OffsetY c) = 20 \<longrightarrow>
             (i_val (OffsetX c'), i_val (OffsetY c')) = (5, 10))"
    by (simp add: configure_fst_OffsetX configure_fst_OffsetY center_roi_def Let_def)
next
  assume n: "\<not> (i_writable (OffsetX c) \<and> i_writable (OffsetY c))"
  define c1 where "c1 = fst (configure_resolution c width height)"
  have n1: "\<not> (i_writable (OffsetX c1) \<and> i_writable (OffsetY c1))"
    using n by (simp add: c1_def resolution_keeps_offsets)
  have skip: "center_roi c1 = (c1, [])"
    by (rule center_roi_skipped[OF n1])
  have "OffsetX (fst (configure_camera_resolution_fps c width height fps)) = OffsetX c"
       "OffsetY (fst (configure_camera_resolution_fps c width height fps)) = OffsetY c"
    using n by (simp_all add: configure_fst_OffsetX configure_fst_OffsetY center_roi_skipped)
  moreover have "snd (configure_camera_resolution_fps c width height fps) =
            snd (configure_resolution c width height) @
            snd (configure_frame_rate c1 fps) @
            [Print CHECK ''Applied resolution: {current_width} x {current_height}, FPS: {current_fps:.2f}'']"
    using skip by (simp add: configure_snd c1_def)
  ultimately show "let c1 = fst (configure_resolution c width height)
       in center_roi c1 = (c1, []) \<and>
          OffsetX (fst (configure_camera_resolution_fps c width height fps)) = OffsetX c \<and>
          OffsetY (fst (configure_camera_resolution_fps c width height fps)) = OffsetY c \<and>
          snd (configure_camera_resolution_fps c width height fps) =
            snd (configure_resolution c width height) @
            snd (configure_frame_rate c1 fps) @
            [Print CHECK ''Applied resolution: {current_width} x {current_height}, FPS: {current_fps:.2f}'']"
    using skip unfolding Let_def c1_def by simp
qed


theorem C9_centering_witness:
  "i_writable (OffsetX bench_camera) \<and> i_writable (OffsetY bench_camera) \<and>
   i_max (OffsetX bench_camera) = 10 \<and> i_max (OffsetY bench_camera) = 20 \<and>
   i_val (OffsetX (fst (configure_camera_resolution_fps bench_camera 1280 720 30))) = 5 \<and>
   i_val (OffsetY (fst (configure_camera_resolution_fps bench_camera 1280 720 30))) = 10 \<and>
   \<not> (i_writable (OffsetX locked_camera) \<and> i_writable (OffsetY locked_camera)) \<and>
   OffsetX (fst (configure_camera_resolution_fps locked_camera 1280 720 30)) = rw_node 10 0 \<and>
   OffsetY (fst (configure_camera_resolution_fps locked_camera 1280 720 30)) = ro_node 20 0"
  using C9_centering[of bench_camera 1280 720 30] C9_centering[of locked_camera 1280 720 30]
  by (simp add: bench_camera_def locked_camera_def rw_node_def ro_node_def Let_def)

text \<open>
  C10. \<open>set_pixel_format\<close> tries the names RGB8Packed, BGR8, Mono8 in this order and
  writes the value of the first one whose entry is readable. When the pixel-format node is
  not writable, or no name has a readable entry, the camera is as it was and one warning is
  printed. The function returns in every case: it has no exception among its results.
\<close>

theorem C10_selection:
  "(\<not> en_writable (PixelFormat c) \<longrightarrow>
      set_pixel_format c = (c, [Print WARN ''Cannot write PixelFormat. Using current format.''])) \<and>
   (en_writable (PixelFormat c) \<longrightarrow>
      (case find (readable_by_name (PixelFormat c)) [''RGB8Packed'', ''BGR8'', ''Mono8''] of
         None \<Rightarrow>
           set_pixel_format c = (c, [Print WARN ''No preferred PixelFormat found. Using default.''])
       | Some n \<Rightarrow>
           (\<exists>e. GetEntryByName (PixelFormat c) n = Some e \<and> e_readable e \<and>
                set_pixel_format c =
                  (c\<lparr>PixelFormat := (PixelFormat c)\<lparr>en_current := e_val e\<rparr>\<rparr>,
                   [SetIntValue ''PixelFormat'' (e_val e),
                    Print INFO (''PixelFormat set to '' @ n)]))))"
proof (intro conjI impI)
  assume "\<not> en_writable (PixelFormat c)"
  then show "set_pixel_format c = (c, [Print WARN ''Cannot write PixelFormat. Using current format.''])"
    by (simp add: set_pixel_format_def)
next
  assume w: "en_writable (PixelFormat c)"
  show "case find (readable_by_name (PixelFormat c)) [''RGB8Packed'', ''BGR8'', ''Mono8''] of
         None \<Rightarrow>
           set_pixel_format c = (c, [Print WARN ''No preferred PixelFormat found. Using default.''])
       | Some n \<Rightarrow>
           (\<exists>e. GetEntryByName (PixelFormat c) n = Some e \<and> e_readable e \<and>
                set_pixel_format c =
                  (c\<lparr>PixelFormat := (PixelFormat c)\<lparr>en_current := e_val e\<rparr>\<rparr>,
                   [SetIntValue ''PixelFormat'' (e_val e),
                    Print INFO (''PixelFormat set to '' @ n)]))"
  proof (cases "find (readable_by_name (PixelFormat c)) [''RGB8Packed'', ''BGR8'', ''Mono8'']")
    case None
    then show ?thesis
      using w by (simp add: set_pixel_format_def try_formats_find preferred_formats_def)
  next
    case (Some n)
    then have "readable_by_name (PixelFormat c) n"
      by (metis find_Some_iff)
    then obtain e where e: "GetEntryByName (PixelFormat c) n = Some e" "e_readable e"
      by (auto simp: readable_by_name_def split: option.splits)
    show ?thesis
      using w Some e by (simp add: set_pixel_format_def try_formats_find preferred_formats_def)
  qed
qed


theorem C10_selection_witness:
  "en_writable (PixelFormat bench_camera) \<and>
   set_pixel_format bench_camera =
     (bench_camera\<lparr>PixelFormat := bench_formats\<lparr>en_current := 1\<rparr>\<rparr>,
      [SetIntValue ''PixelFormat'' 1, Print INFO ''PixelFormat set to Mono8'']) \<and>
   \<not> en_writable (PixelFormat locked_camera) \<and>
   set_pixel_format locked_camera =
     (locked_camera, [Print WARN ''Cannot write PixelFormat. Using current format.''])"
  using C10_selection[of bench_camera] C10_selection[of locked_camera]
  by (simp add: bench_camera_def locked_camera_def bench_formats_def readable_by_name_def GetEntryByName_def)

section \<open>The normalizer\<close>

text \<open>\<open>py_in\<close> is the contiguous-sublist relation of the list library.\<close>

lemma py_in_sublist: "py_in p s \<longleftrightarrow> sublist p s"
  by (induction s) (auto simp: sublist_Cons_right)

lemma upper_simps [simp]: "upper [] = []" "upper (c # s) = upper_char c # upper s"
  by (simp_all add: upper_def)

lemmas upper_eval = upper_char_def char_of_def bit_iff_odd

lemma cvtColor_fresh:
  "cvtColor dm (heap @ [a]) (length heap) code =
     (case cvt dm a code of
        Inl e \<Rightarrow> (Inl e, heap @ [a])
      | Inr dst \<Rightarrow> (Inr (Suc (length heap)), heap @ [a, dst]))"
  by (simp add: cvtColor_def split: sum.splits)

lemma cvt_error: "cvt dm a code = Inl e \<Longrightarrow> e = Cv2Error"
  by (auto simp: cvt_def Let_def split: if_splits conversion.splits)

lemma call_cvtColor_fresh:
  "call_cvtColor dm (heap @ [a]) (length heap) evs code =
     (case cvt dm a code of
        Inl e \<Rightarrow> (Inl e, heap @ [a], evs @ [CvtColor code])
      | Inr dst \<Rightarrow> (Inr (Suc (length heap)), heap @ [a, dst], evs @ [CvtColor code]))"
  by (simp add: call_cvtColor_def cvtColor_fresh split: sum.splits)

lemma tidy_call:
  "\<forall>e \<in> set warn. \<exists>t. e = Print WARN t \<Longrightarrow>
   tidy im heap (call_cvtColor dm (heap @ [NDArray im]) (length heap)
                  (GetNDArray (frame_id im) # warn) code)"
  by (auto simp: tidy_def call_cvtColor_fresh split: sum.splits)

lemma tidy_convert: "tidy im heap (convert_image_to_bgr dm im heap)"
proof (cases "PixelFormatName im")
  case (Inl e)
  have "tidy im heap (Inl e, heap @ [NDArray im], [GetNDArray (frame_id im)])"
    by (simp add: tidy_def)
  then show ?thesis
    using tidy_call[of "[Print WARN ''PixelFormat ({pixel_format}) without name. Using generic conversion.'']" im heap dm]
    by (simp add: convert_image_to_bgr_def Let_def Inl)
next
  case (Inr fmt_name)
  have "tidy im heap (Inr (length heap), heap @ [NDArray im], [GetNDArray (frame_id im)])"
    by (simp add: tidy_def)
  then show ?thesis
    using tidy_call[of "[]" im heap dm]
      tidy_call[of "[Print WARN (''Unhandled PixelFormat name '' @ fmt_name @ ''. Using generic conversion.'')]" im heap dm]
    by (simp add: convert_image_to_bgr_def Let_def Inr)
qed

lemma convert_result:
  "convert_image_to_bgr dm im heap = (r, heap', evs) \<Longrightarrow>
     heap' = heap @ [NDArray im] \<and> (r = Inr (length heap) \<or> (\<exists>e. r = Inl e)) \<or>
     r = Inr (Suc (length heap)) \<and> (\<exists>dst. heap' = heap @ [NDArray im, dst])"
  using tidy_convert[of im heap dm] by (simp add: tidy_def)

lemma convert_events:
  "convert_image_to_bgr dm im heap = (r, heap', evs) \<Longrightarrow>
     \<exists>rest. evs = GetNDArray (frame_id im) # rest \<and>
       (\<forall>e \<in> set rest. (\<exists>t. e = Print WARN t) \<or> (\<exists>c. e = CvtColor c))"
  using tidy_convert[of im heap dm] by (simp add: tidy_def)

lemma verdict_call:
  "verdict (call_cvtColor dm (heap @ [a]) (length heap) evs code) =
   (case cvt dm a code of Inl e \<Rightarrow> Inl e | Inr dst \<Rightarrow> Inr ())"
  by (simp add: verdict_def call_cvtColor_fresh split: sum.splits)

lemma verdict_convert:
  "verdict (convert_image_to_bgr dm im heap) = verdict (convert_image_to_bgr dm im [])"
proof -
  have v: "verdict (call_cvtColor dm (heap @ [a]) (length heap) evs code) =
           verdict (call_cvtColor dm [a] 0 evs' code)" for a evs evs' code
    using verdict_call[of dm heap a evs code] verdict_call[of dm "[]" a evs' code] by simp
  have w: "verdict (Inl e, h1, e1) = verdict (Inl e, h2, e2)"
          "verdict (Inr r1, h1, e1) = verdict (Inr r2, h2, e2)" for e h1 h2 e1 e2 r1 r2
    by (simp_all add: verdict_def)
  show ?thesis
    by (cases "PixelFormatName im") (simp_all add: convert_image_to_bgr_def Let_def v w)
qed

lemma normalizes_iff:
  "normalizes dm im \<longleftrightarrow> (\<exists>r. fst (convert_image_to_bgr dm im heap) = Inr r)"
proof -
  have "normalizes dm im \<longleftrightarrow> verdict (convert_image_to_bgr dm im []) = Inr ()"
    by (simp add: normalizes_def verdict_def split: sum.splits)
  also have "\<dots> \<longleftrightarrow> verdict (convert_image_to_bgr dm im heap) = Inr ()"
    by (simp add: verdict_convert[of dm im heap])
  also have "\<dots> \<longleftrightarrow> (\<exists>r. fst (convert_image_to_bgr dm im heap) = Inr r)"
    by (simp add: verdict_def split: sum.splits)
  finally show ?thesis .
qed









text \<open>
  C7. For a frame whose name selects the BGR branch (it contains BGR8 and neither MONO8
  nor RGB8), the function returns the very reference of the array \<open>GetNDArray\<close> gave:
  no array is allocated and the array is as it was. For every frame, whatever its name,
  the store the call found is unchanged and the array at the input's reference is the
  input; a converted result is a new array at a new reference.
\<close>

theorem C7_canonical_reuse:
  "(PixelFormatName im = Inr name \<and> py_in ''BGR8'' (upper name) \<and>
    \<not> py_in ''MONO8'' (upper name) \<and> \<not> py_in ''RGB8'' (upper name) \<longrightarrow>
      convert_image_to_bgr dm im heap =
        (Inr (length heap), heap @ [NDArray im], [GetNDArray (frame_id im)])) \<and>
   (\<forall>r heap' evs. convert_image_to_bgr dm im heap = (r, heap', evs) \<longrightarrow>
      take (length heap) heap' = heap \<and> heap' ! length heap = NDArray im \<and>
      (heap' = heap @ [NDArray im] \<or>
       r = Inr (Suc (length heap)) \<and> (\<exists>dst. heap' = heap @ [NDArray im, dst])))"
proof (intro conjI impI allI)
  assume "PixelFormatName im = Inr name \<and> py_in ''BGR8'' (upper name) \<and>
    \<not> py_in ''MONO8'' (upper name) \<and> \<not> py_in ''RGB8'' (upper name)"
  then show "convert_image_to_bgr dm im heap =
        (Inr (length heap), heap @ [NDArray im], [GetNDArray (frame_id im)])"
    by (simp add: convert_image_to_bgr_def)
next
  fix r heap' evs
  assume c: "convert_image_to_bgr dm im heap = (r, heap', evs)"
  from convert_result[OF c]
  show "take (length heap) heap' = heap" by auto
  from convert_result[OF c]
  show "heap' ! length heap = NDArray im" by (auto simp: nth_append)
  from convert_result[OF c]
  show "heap' = heap @ [NDArray im] \<or>
       r = Inr (Suc (length heap)) \<and> (\<exists>dst. heap' = heap @ [NDArray im, dst])" by auto
qed

theorem C7_canonical_reuse_witness:
  "PixelFormatName bgr_frame = Inr ''BGR8'' \<and> py_in ''BGR8'' (upper ''BGR8'') \<and>
   \<not> py_in ''MONO8'' (upper ''BGR8'') \<and> \<not> py_in ''RGB8'' (upper ''BGR8'') \<and>
   convert_image_to_bgr flat_demosaic bgr_frame [] =
     (Inr 0, [Arr3 2 2 3 [1, 2, 3, 4, 5, 6, 7, 8, 9, 10, 11, 12]], [GetNDArray 0]) \<and>
   convert_image_to_bgr flat_demosaic mono_frame [] =
     (Inr 1, [Arr2 2 2 [10, 20, 30, 40],
              Arr3 2 2 3 [10, 10, 10, 20, 20, 20, 30, 30, 30, 40, 40, 40]],
      [GetNDArray 0, CvtColor COLOR_GRAY2BGR]) \<and>
   [Arr2 2 2 [10, 20, 30, 40],
    Arr3 2 2 3 [10, 10, 10, 20, 20, 20, 30, 30, 30, 40, 40, 40]] ! length ([] :: heap) =
     NDArray mono_frame"
  using C7_canonical_reuse[of bgr_frame "''BGR8''" flat_demosaic "[]"]
        C7_canonical_reuse[of mono_frame "''Mono8''" flat_demosaic "[]"]
  by (simp add: bgr_frame_def mono_frame_def upper_eval convert_image_to_bgr_def
      call_cvtColor_def cvtColor_def cvt_def)

section \<open>Traces of the capture flows\<close>

lemma emit_simps [simp]:
  "trace (emit evs s) = trace s @ evs"
  "store (emit evs s) = store s"
  "nodes (emit evs s) = nodes s"
  "streaming (emit evs s) = streaming s"
  "dirs (emit evs s) = dirs s"
  by (simp_all add: emit_def)

lemma emit_emit [simp]: "emit b (emit a s) = emit (a @ b) s"
  by (simp add: emit_def)

lemma emit_update [simp]:
  "emit evs (s\<lparr>store := h\<rparr>) = (emit evs s)\<lparr>store := h\<rparr>"
  "emit evs (s\<lparr>nodes := c\<rparr>) = (emit evs s)\<lparr>nodes := c\<rparr>"
  "emit evs (s\<lparr>streaming := b\<rparr>) = (emit evs s)\<lparr>streaming := b\<rparr>"
  by (simp_all add: emit_def)

lemma fetched_simps [simp]:
  "fetched [] = []"
  "fetched (e # evs) = fetched_of e @ fetched evs"
  "fetched (xs @ ys) = fetched xs @ fetched ys"
  by (simp_all add: fetched_def)

lemma released_simps [simp]:
  "released [] = []"
  "released (e # evs) = released_of e @ released evs"
  "released (xs @ ys) = released xs @ released ys"
  by (simp_all add: released_def)

lemma saved_paths_simps [simp]:
  "saved_paths [] = []"
  "saved_paths (e # evs) = written_of e @ saved_paths evs"
  "saved_paths (xs @ ys) = saved_paths xs @ saved_paths ys"
  by (simp_all add: saved_paths_def)

text \<open>An incomplete image: one pass of the loop, and the single-shot \<open>try\<close> block.\<close>

lemma loop_body_incomplete:
  "streaming s \<Longrightarrow> fetch t = Inr im \<Longrightarrow> IsIncomplete im \<Longrightarrow>
   loop_body w output_dir n t frame_count s =
     Continue frame_count
       (emit [GetNextImage (Inr (frame_id im)), Print WARN ''Incomplete image. Status: {}'',
              Release (frame_id im)] s)"
  by (simp add: loop_body_def Let_def)

lemma single_try_incomplete:
  "streaming s \<Longrightarrow> fetch t = Inr im \<Longrightarrow> IsIncomplete im \<Longrightarrow>
   single_try w t s =
     (Inr None,
      emit [GetNextImage (Inr (frame_id im)), Print WARN ''Image incomplete. Status: {}'',
            Release (frame_id im)] s)"
  by (simp add: single_try_def Let_def)


lemma debug_pixel_format_setup: "\<forall>e \<in> set (debug_pixel_format c). setup_event e"
  by (simp add: debug_pixel_format_def Let_def split: option.splits prod.splits)

lemma set_pixel_format_setup:
  "\<forall>e \<in> set (snd (set_pixel_format c)). setup_event e"
  by (simp add: set_pixel_format_def try_formats_find Let_def split: option.splits)

lemma set_pixel_format_mode:
  "AcquisitionMode (fst (set_pixel_format c)) = AcquisitionMode c"
  by (simp add: set_pixel_format_def try_formats_find Let_def split: option.splits)

lemma configure_setup:
  "\<forall>e \<in> set (snd (configure_camera_resolution_fps c width height fps)). setup_event e"
  by (simp add: configure_camera_resolution_fps_def configure_resolution_def center_roi_def
      configure_frame_rate_def Let_def split: prod.splits)

lemma configure_mode:
  "AcquisitionMode (fst (configure_camera_resolution_fps c width height fps)) = AcquisitionMode c"
  by (simp add: configure_camera_resolution_fps_def configure_resolution_def center_roi_def
      configure_frame_rate_def Let_def split: prod.splits)

text \<open>The setup appends events and may change nodes, and nothing else.\<close>

lemma setup_pixel_format_effect:
  "\<exists>E c. setup_pixel_format s = (emit E s)\<lparr>nodes := c\<rparr> \<and> (\<forall>e \<in> set E. setup_event e) \<and>
     AcquisitionMode c = AcquisitionMode (nodes s)"
proof -
  let ?E = "Print INFO ''Before setting PixelFormat:'' # debug_pixel_format (nodes s) @
            snd (set_pixel_format (nodes s)) @
            Print INFO ''After setting PixelFormat:'' #
            debug_pixel_format (fst (set_pixel_format (nodes s)))"
  have "setup_pixel_format s = (emit ?E s)\<lparr>nodes := fst (set_pixel_format (nodes s))\<rparr>"
    by (simp add: setup_pixel_format_def Let_def split: prod.splits)
  moreover have "\<forall>e \<in> set ?E. setup_event e"
    using debug_pixel_format_setup set_pixel_format_setup by auto
  ultimately show ?thesis
    using set_pixel_format_mode by blast
qed


lemma loop_body_events:
  "\<exists>E. trace (after (loop_body w output_dir n t frame_count s)) = trace s @ E \<and>
       (\<forall>e \<in> set E. loop_event e)"
proof (cases "if streaming s then fetch t else Inl SpinnakerException")
  case (Inl e)
  then show ?thesis by (simp add: loop_body_def)
next
  case (Inr im)
  show ?thesis
  proof (cases "IsIncomplete im")
    case True
    with Inr show ?thesis by (simp add: loop_body_def Let_def)
  next
    case False
    obtain r heap' evs where c: "convert_image_to_bgr (bayer w) im (store s) = (r, heap', evs)"
      by (cases "convert_image_to_bgr (bayer w) im (store s)")
    from convert_events[OF c] have ev: "\<forall>e \<in> set evs. loop_event e"
      by fastforce
    show ?thesis
      using Inr False c ev
      by (cases r) (auto simp: loop_body_def Let_def)
  qed
qed

lemma capture_loop_events:
  "\<exists>E. trace (snd (capture_loop w output_dir n ts frame_count s)) = trace s @ E \<and>
       (\<forall>e \<in> set E. loop_event e)"
proof (induction ts arbitrary: frame_count s)
  case Nil
  then show ?case by simp
next
  case (Cons t ts)
  obtain E where E: "trace (after (loop_body w output_dir n t frame_count s)) = trace s @ E"
    "\<forall>e \<in> set E. loop_event e"
    using loop_body_events by blast
  show ?case
  proof (cases "loop_body w output_dir n t frame_count s")
    case (Stop r s')
    with E show ?thesis by auto
  next
    case (Continue fc' s')
    obtain E' where E': "trace (snd (capture_loop w output_dir n ts fc' s')) = trace s' @ E'"
      "\<forall>e \<in> set E'. loop_event e"
      using Cons.IH by blast
    have "trace (snd (capture_loop w output_dir n (t # ts) frame_count s)) = trace s @ (E @ E')"
      using Continue E E' by simp
    moreover have "\<forall>e \<in> set (E @ E'). loop_event e"
      using E E' by auto
    ultimately show ?thesis by blast
  qed
qed

lemma start_continuous_mode_events:
  "\<exists>E. trace (snd (start_continuous_mode w s)) = trace s @ E \<and> (\<forall>e \<in> set E. setup_event e)"
  by (auto simp: start_continuous_mode_def select_mode_def begin_acquisition_def
      split: option.splits)

lemma realtime_try_events:
  "\<exists>E. trace (snd (realtime_try w output_dir n width height fps s)) = trace s @ E \<and>
       (\<forall>e \<in> set E. setup_event e \<or> loop_event e)"
proof (cases "Init_raises w")
  case True
  then show ?thesis by (simp add: realtime_try_def Let_def)
next
  case False
  obtain E1 c1 where s2: "setup_pixel_format (emit [Init] s) = (emit E1 (emit [Init] s))\<lparr>nodes := c1\<rparr>"
    and E1: "\<forall>e \<in> set E1. setup_event e"
    using setup_pixel_format_effect by blast
  define s2 where "s2 = setup_pixel_format (emit [Init] s)"
  define cfg where "cfg = configure_camera_resolution_fps (nodes s2) width height fps"
  define s3 where "s3 = emit (snd cfg) (s2\<lparr>nodes := fst cfg\<rparr>)"
  have t3: "trace s3 = trace s @ (Init # E1 @ snd cfg)"
    using s2 by (simp add: s3_def s2_def)
  have cfgE: "\<forall>e \<in> set (snd cfg). setup_event e"
    unfolding cfg_def by (rule configure_setup)
  obtain E4 where E4: "trace (snd (start_continuous_mode w s3)) = trace s3 @ E4"
    "\<forall>e \<in> set E4. setup_event e"
    using start_continuous_mode_events by blast
  have unfold: "realtime_try w output_dir n width height fps s =
      (case start_continuous_mode w s3 of
         (Inl e, s4) \<Rightarrow> (Some (Inl e), s4)
       | (Inr u, s4) \<Rightarrow>
           capture_loop w output_dir n (ticks w) 0
             (emit [Print INFO ''Start realtime streaming. Press q to quit.'',
                    Print INFO ''Auto save: every {save_every_n_frames} frames to directory: {output_dir}'']
                s4))"
    using False by (simp add: realtime_try_def Let_def s3_def cfg_def s2_def split: prod.splits)
  obtain r4 s4 where st: "start_continuous_mode w s3 = (r4, s4)"
    by (cases "start_continuous_mode w s3")
  show ?thesis
  proof (cases r4)
    case (Inl e)
    have "trace (snd (realtime_try w output_dir n width height fps s)) =
          trace s @ (Init # E1 @ snd cfg @ E4)"
      using unfold st Inl E4 t3 by simp
    moreover have "\<forall>e \<in> set (Init # E1 @ snd cfg @ E4). setup_event e \<or> loop_event e"
      using E1 cfgE E4 by auto
    ultimately show ?thesis by blast
  next
    case (Inr u)
    let ?P = "[Print INFO ''Start realtime streaming. Press q to quit.'',
               Print INFO ''Auto save: every {save_every_n_frames} frames to directory: {output_dir}'']"
    obtain E5 where E5: "trace (snd (capture_loop w output_dir n (ticks w) 0 (emit ?P s4))) =
         trace (emit ?P s4) @ E5" "\<forall>e \<in> set E5. loop_event e"
      using capture_loop_events by blast
    have "trace (snd (realtime_try w output_dir n width height fps s)) =
          trace s @ (Init # E1 @ snd cfg @ E4 @ ?P @ E5)"
      using unfold st Inr E4 E5 t3 by simp
    moreover have "\<forall>e \<in> set (Init # E1 @ snd cfg @ E4 @ ?P @ E5). setup_event e \<or> loop_event e"
      using E1 cfgE E4 E5 by auto
    ultimately show ?thesis by blast
  qed
qed

lemma cleanup_trace:
  "trace (snd (cleanup w s)) = trace s @ teardown_trace w"
  by (simp add: cleanup_def release_all_def end_acquisition_def teardown_trace_def Let_def)

lemma cleanup_result:
  "fst (cleanup w s) =
     (if DeInit_raises w \<or> Clear_raises w \<or> ReleaseInstance_raises w
      then Inl SpinnakerException else Inr ())"
  by (simp add: cleanup_def release_all_def end_acquisition_def Let_def)

lemma not_teardown: "setup_event e \<or> loop_event e \<Longrightarrow> \<not> teardown_call e"
  by (cases e) auto

lemmas run_defs =
  realtime_view_and_save_def realtime_try_def initial_state_def makedirs_def
  setup_pixel_format_def debug_pixel_format_def set_pixel_format_def preferred_formats_def
  GetEntryByName_def GetCurrentEntry_def
  configure_camera_resolution_fps_def configure_resolution_def center_roi_def
  configure_frame_rate_def even_down_def
  start_continuous_mode_def select_mode_def begin_acquisition_def
  loop_body_def cleanup_def release_all_def end_acquisition_def no_camera_def
  lab2_single_frame_def single_frame_try_def acquire_single_frame_def single_try_def
  convert_image_to_bgr_def call_cvtColor_def cvtColor_def cvt_def generic_conversion_def
  emit_def Let_def

lemmas world_defs =
  bench_world_def bench_camera_def bench_formats_def bench_modes_def locked_camera_def
  rw_node_def ro_node_def tick_of_def noon_def
  mono_frame_def gb_frame_def incomplete_frame_def

text \<open>
  C2, as the specification states it, fails: only the stop is guarded. When the close of
  the device raises, the device list is not cleared and the SDK session is not released.
\<close>

theorem C2_counterexample:
  "fst (realtime_view_and_save stuck_close_world ''captures'' 10 1280 720 30) =
     Some (Inl SpinnakerException) \<and>
   trace (snd (realtime_view_and_save stuck_close_world ''captures'' 10 1280 720 30)) =
     [MakeDirs ''captures'', GetInstance, GetCameras, Init,
      Print INFO ''Before setting PixelFormat:'',
      Print INFO ''Current PixelFormat: BayerGB8'',
      SetIntValue ''PixelFormat'' 1, Print INFO ''PixelFormat set to Mono8'',
      Print INFO ''After setting PixelFormat:'',
      Print INFO ''Current PixelFormat: Mono8'',
      SetValue ''Width'' 1280, SetValue ''Height'' 720,
      Print INFO ''Resolution set to {width} x {height}'',
      SetValue ''OffsetX'' 5, SetValue ''OffsetY'' 10,
      SetBool ''AcquisitionFrameRateEnable'' True,
      SetFloat ''AcquisitionFrameRate'' 30,
      Print INFO ''Frame rate set to {fps:.2f} FPS'',
      Print CHECK ''Applied resolution: {current_width} x {current_height}, FPS: {current_fps:.2f}'',
      SetIntValue ''AcquisitionMode'' 0, BeginAcquisition,
      Print INFO ''Acquisition mode: Continuous'',
      Print INFO ''Start realtime streaming. Press q to quit.'',
      Print INFO ''Auto save: every {save_every_n_frames} frames to directory: {output_dir}'',
      GetNextImage (Inr 0), GetNDArray 0, CvtColor COLOR_GRAY2BGR, Release 0,
      PutText 1, ImShow 1, WaitKey, Print INFO ''q pressed. Exiting loop.'',
      EndAcquisition, DeInit] \<and>
   ClearList \<notin> set (trace (snd (realtime_view_and_save stuck_close_world ''captures'' 10 1280 720 30))) \<and>
   ReleaseInstance \<notin> set (trace (snd (realtime_view_and_save stuck_close_world ''captures'' 10 1280 720 30)))"
  by (simp add: stuck_close_world_def run_defs world_defs upper_eval)

text \<open>
  C2, amended. On every exit path of \<open>realtime_view_and_save\<close> after a camera was found,
  the trace ends with the teardown and has no teardown call before it: stop acquisition
  and close device are always attempted, in this order, whether or not the stop raises (as
  it does when the stream was never started); clear device list follows if the close did
  not raise, and release SDK session follows if the clear did not raise. A close, clear or
  release that raises ends the teardown there and its exception leaves the function. When
  no camera is found, only clear device list and release SDK session run.
\<close>

theorem C2_teardown:
  "(num_cameras w \<noteq> 0 \<longrightarrow>
      (\<forall>r s'. realtime_view_and_save w output_dir n width height fps = (Some r, s') \<longrightarrow>
         (\<exists>pre. trace s' = pre @ teardown_trace w \<and> (\<forall>e \<in> set pre. \<not> teardown_call e)) \<and>
         (DeInit_raises w \<or> Clear_raises w \<or> ReleaseInstance_raises w \<longrightarrow>
            r = Inl SpinnakerException))) \<and>
   (num_cameras w = 0 \<longrightarrow>
      trace (snd (realtime_view_and_save w output_dir n width height fps)) =
        [MakeDirs output_dir, GetInstance, GetCameras, Print ERROR ''No FLIR cameras found.'',
         ClearList] @ (if Clear_raises w then [] else [ReleaseInstance]))"
proof (intro conjI impI allI)
  fix r s'
  assume cams: "num_cameras w \<noteq> 0"
    and run: "realtime_view_and_save w output_dir n width height fps = (Some r, s')"
  define s0 where "s0 = emit [GetInstance, GetCameras] (makedirs output_dir (initial_state w))"
  have t0: "trace s0 = [MakeDirs output_dir, GetInstance, GetCameras]"
    by (simp add: s0_def makedirs_def initial_state_def)
  obtain r1 s1 where tr: "realtime_try w output_dir n width height fps s0 = (r1, s1)"
    by (cases "realtime_try w output_dir n width height fps s0")
  obtain E where E: "trace s1 = trace s0 @ E" "\<forall>e \<in> set E. setup_event e \<or> loop_event e"
    using realtime_try_events[of w output_dir n width height fps s0] tr by auto
  from run cams tr obtain r0 where r1: "r1 = Some r0"
    and fin: "(Some r, s') = (case cleanup w s1 of (Inl e, s2) \<Rightarrow> (Some (Inl e), s2)
                                | (Inr u, s2) \<Rightarrow> (Some r0, s2))"
    by (cases r1) (auto simp: realtime_view_and_save_def Let_def s0_def)
  have s': "s' = snd (cleanup w s1)"
    using fin by (auto split: prod.splits sum.splits)
  have r: "r = (case fst (cleanup w s1) of Inl e \<Rightarrow> Inl e | Inr u \<Rightarrow> r0)"
    using fin by (auto split: prod.splits sum.splits)
  have "trace s' = ([MakeDirs output_dir, GetInstance, GetCameras] @ E) @ teardown_trace w"
    by (simp add: s' cleanup_trace E t0)
  moreover have "\<forall>e \<in> set ([MakeDirs output_dir, GetInstance, GetCameras] @ E). \<not> teardown_call e"
    using E(2) not_teardown by auto
  ultimately show "\<exists>pre. trace s' = pre @ teardown_trace w \<and> (\<forall>e \<in> set pre. \<not> teardown_call e)"
    by blast
  show "r = Inl SpinnakerException"
    if "DeInit_raises w \<or> Clear_raises w \<or> ReleaseInstance_raises w"
    using that by (simp add: r cleanup_result)
next
  assume "num_cameras w = 0"
  then show "trace (snd (realtime_view_and_save w output_dir n width height fps)) =
        [MakeDirs output_dir, GetInstance, GetCameras, Print ERROR ''No FLIR cameras found.'',
         ClearList] @ (if Clear_raises w then [] else [ReleaseInstance])"
    by (simp add: realtime_view_and_save_def no_camera_def makedirs_def initial_state_def Let_def)
qed

theorem C2_teardown_witness:
  "num_cameras never_started_world \<noteq> 0 \<and>
   BeginAcquisition \<notin> set (trace (snd (realtime_view_and_save never_started_world ''captures'' 10 1280 720 30))) \<and>
   fst (realtime_view_and_save never_started_world ''captures'' 10 1280 720 30) =
     Some (Inl SpinnakerException) \<and>
   (\<exists>pre. trace (snd (realtime_view_and_save never_started_world ''captures'' 10 1280 720 30)) =
            pre @ [EndAcquisition, DeInit, ClearList, ReleaseInstance, DestroyAllWindows,
                   Print INFO ''Cleanup done.''] \<and>
          (\<forall>e \<in> set pre. \<not> teardown_call e)) \<and>
   num_cameras (bench_world\<lparr>num_cameras := 0\<rparr>) = 0 \<and>
   trace (snd (realtime_view_and_save (bench_world\<lparr>num_cameras := 0\<rparr>) ''captures'' 10 1280 720 30)) =
     [MakeDirs ''captures'', GetInstance, GetCameras, Print ERROR ''No FLIR cameras found.'',
      ClearList, ReleaseInstance]"
proof -
  obtain s' where run: "realtime_view_and_save never_started_world ''captures'' 10 1280 720 30 =
      (Some (Inl SpinnakerException), s')"
    by (simp add: never_started_world_def run_defs world_defs upper_eval)
  have nb: "BeginAcquisition \<notin> set (trace (snd (realtime_view_and_save never_started_world ''captures'' 10 1280 720 30)))"
    by (simp add: never_started_world_def run_defs world_defs upper_eval)
  have tt: "teardown_trace never_started_world =
      [EndAcquisition, DeInit, ClearList, ReleaseInstance, DestroyAllWindows,
       Print INFO ''Cleanup done.'']"
    by (simp add: teardown_trace_def never_started_world_def bench_world_def)
  have n1: "num_cameras never_started_world \<noteq> 0"
    by (simp add: never_started_world_def bench_world_def)
  have n0: "num_cameras (bench_world\<lparr>num_cameras := 0\<rparr>) = 0" "\<not> Clear_raises (bench_world\<lparr>num_cameras := 0\<rparr>)"
    by (simp_all add: bench_world_def)
  show ?thesis
    using C2_teardown[of never_started_world "''captures''" 10 1280 720 30]
          C2_teardown[of "bench_world\<lparr>num_cameras := 0\<rparr>" "''captures''" 10 1280 720 30]
          run nb tt n1 n0
    by simp
qed

section \<open>Incomplete images\<close>

lemma extends_refl [simp]: "extends P s s"
  by (simp add: extends_def)

lemma extends_trans: "extends P s s1 \<Longrightarrow> extends P s1 s2 \<Longrightarrow> extends P s s2"
  unfolding extends_def by (metis Un_iff append.assoc set_append)

lemma extends_emit: "\<forall>e \<in> set evs. P e \<Longrightarrow> extends P s (emit evs s)"
  by (auto simp: extends_def)

lemma extends_emit_nodes: "\<forall>e \<in> set evs. P e \<Longrightarrow> extends P s ((emit evs s)\<lparr>nodes := c\<rparr>)"
  by (auto simp: extends_def)

lemma extends_mono: "extends P s s' \<Longrightarrow> (\<And>e. P e \<Longrightarrow> Q e) \<Longrightarrow> extends Q s s'"
  unfolding extends_def by blast

lemma extends_all:
  "extends P s s' \<Longrightarrow> \<forall>e \<in> set (trace s). P e \<Longrightarrow> \<forall>e \<in> set (trace s'). P e"
  unfolding extends_def by auto

lemma setup_not_norm: "setup_event e \<Longrightarrow> \<not> normalizer_or_save e"
  by (cases e) auto

lemma setup_pixel_format_extends: "extends setup_event s (setup_pixel_format s)"
  using setup_pixel_format_effect[of s] by (auto simp: extends_def)

lemma start_continuous_mode_extends: "extends setup_event s (snd (start_continuous_mode w s))"
  using start_continuous_mode_events[of w s] by (simp add: extends_def)

lemma loop_body_idle:
  "\<not> complete_tick t \<Longrightarrow>
   extends (\<lambda>e. \<not> normalizer_or_save e) s (after (loop_body w output_dir n t frame_count s))"
  by (auto simp: complete_tick_def loop_body_def Let_def extends_def split: sum.splits)

lemma capture_loop_idle:
  "\<forall>t \<in> set ts. \<not> complete_tick t \<Longrightarrow>
   extends (\<lambda>e. \<not> normalizer_or_save e) s (snd (capture_loop w output_dir n ts frame_count s))"
proof (induction ts arbitrary: frame_count s)
  case Nil
  then show ?case by simp
next
  case (Cons t ts)
  have b: "extends (\<lambda>e. \<not> normalizer_or_save e) s (after (loop_body w output_dir n t frame_count s))"
    using Cons.prems by (simp add: loop_body_idle)
  show ?case
  proof (cases "loop_body w output_dir n t frame_count s")
    case (Stop r s')
    with b show ?thesis by simp
  next
    case (Continue fc' s')
    with b Cons show ?thesis by (auto intro: extends_trans)
  qed
qed

lemma realtime_try_idle:
  assumes "\<forall>t \<in> set (ticks w). \<not> complete_tick t"
  shows "extends (\<lambda>e. \<not> normalizer_or_save e) s
           (snd (realtime_try w output_dir n width height fps s))"
proof (cases "Init_raises w")
  case True
  then show ?thesis by (simp add: realtime_try_def Let_def extends_emit)
next
  case False
  let ?Q = "\<lambda>e. \<not> normalizer_or_save e"
  define s1 where "s1 = emit [Init] s"
  define s2 where "s2 = setup_pixel_format s1"
  define cfg where "cfg = configure_camera_resolution_fps (nodes s2) width height fps"
  define s3 where "s3 = emit (snd cfg) (s2\<lparr>nodes := fst cfg\<rparr>)"
  define s4 where "s4 = snd (start_continuous_mode w s3)"
  let ?P = "[Print INFO ''Start realtime streaming. Press q to quit.'',
             Print INFO ''Auto save: every {save_every_n_frames} frames to directory: {output_dir}'']"
  have e1: "extends ?Q s s1" by (simp add: s1_def extends_emit)
  have e2: "extends ?Q s1 s2"
    unfolding s2_def by (rule extends_mono[OF setup_pixel_format_extends setup_not_norm])
  have e3: "extends ?Q s2 s3"
    using configure_setup[of "nodes s2" width height fps] setup_not_norm
    by (auto simp: s3_def cfg_def extends_def)
  have e4: "extends ?Q s3 s4"
    unfolding s4_def by (rule extends_mono[OF start_continuous_mode_extends setup_not_norm])
  have e5: "extends ?Q s4 (emit ?P s4)" by (simp add: extends_emit)
  have e6: "extends ?Q (emit ?P s4) (snd (capture_loop w output_dir n (ticks w) 0 (emit ?P s4)))"
    by (rule capture_loop_idle[OF assms])
  have unfold: "snd (realtime_try w output_dir n width height fps s) =
      (case fst (start_continuous_mode w s3) of
         Inl e \<Rightarrow> s4
       | Inr u \<Rightarrow> snd (capture_loop w output_dir n (ticks w) 0 (emit ?P s4)))"
    using False
    by (simp add: realtime_try_def Let_def s4_def s3_def cfg_def s2_def s1_def
        split: prod.splits sum.splits)
  have upto4: "extends ?Q s s4"
    using e1 e2 e3 e4 by (blast intro: extends_trans)
  show ?thesis
    unfolding unfold using upto4 e5 e6 by (auto split: sum.splits intro: extends_trans)
qed

lemma cleanup_extends: "extends (\<lambda>e. \<not> normalizer_or_save e) s (snd (cleanup w s))"
  by (simp add: extends_def cleanup_trace teardown_trace_def)

lemma release_all_extends: "extends (\<lambda>e. \<not> normalizer_or_save e) s (snd (release_all w s))"
  by (simp add: extends_def release_all_def Let_def)

lemma no_camera_extends: "extends (\<lambda>e. \<not> normalizer_or_save e) s (snd (no_camera w s))"
  by (simp add: extends_def no_camera_def Let_def)

lemma realtime_idle:
  assumes "\<forall>t \<in> set (ticks w). \<not> complete_tick t"
  shows "\<forall>e \<in> set (trace (snd (realtime_view_and_save w output_dir n width height fps))).
           \<not> normalizer_or_save e"
proof -
  let ?Q = "\<lambda>e. \<not> normalizer_or_save e"
  define s0 where "s0 = emit [GetInstance, GetCameras] (makedirs output_dir (initial_state w))"
  have t0: "\<forall>e \<in> set (trace s0). ?Q e"
    by (simp add: s0_def makedirs_def initial_state_def)
  define s1 where "s1 = snd (realtime_try w output_dir n width height fps s0)"
  have e1: "extends ?Q s0 s1"
    unfolding s1_def by (rule realtime_try_idle[OF assms])
  have e2: "extends ?Q s1 (snd (cleanup w s1))" by (rule cleanup_extends)
  have e0: "extends ?Q s0 (snd (no_camera w s0))" by (rule no_camera_extends)
  have "snd (realtime_view_and_save w output_dir n width height fps) = snd (no_camera w s0) \<or>
        snd (realtime_view_and_save w output_dir n width height fps) = s1 \<or>
        snd (realtime_view_and_save w output_dir n width height fps) = snd (cleanup w s1)"
    by (auto simp: realtime_view_and_save_def Let_def s0_def s1_def
        split: prod.splits option.splits sum.splits)
  then show ?thesis
    using extends_all[OF e0 t0] extends_all[OF e1 t0] extends_all[OF extends_trans[OF e1 e2] t0]
    by auto
qed


lemma single_try_idle:
  "\<not> complete_tick t \<Longrightarrow> extends (\<lambda>e. \<not> normalizer_or_save e) s (snd (single_try w t s))"
  by (auto simp: complete_tick_def single_try_def Let_def extends_def split: sum.splits)

lemma end_acquisition_extends:
  "extends (\<lambda>e. \<not> normalizer_or_save e) s (snd (end_acquisition w s))"
  by (simp add: extends_def end_acquisition_def)

lemma select_mode_extends:
  "extends (\<lambda>e. \<not> normalizer_or_save e) s (snd (select_mode name s))"
  by (simp add: extends_def select_mode_def split: option.splits)

lemma begin_acquisition_extends:
  "extends (\<lambda>e. \<not> normalizer_or_save e) s (snd (begin_acquisition w s))"
  by (simp add: extends_def begin_acquisition_def)

lemma acquire_single_frame_idle:
  assumes "\<forall>t \<in> set (ticks w). \<not> complete_tick t"
  shows "extends (\<lambda>e. \<not> normalizer_or_save e) s (snd (acquire_single_frame w s)) \<and>
         (\<forall>frame. fst (acquire_single_frame w s) \<noteq> Some (Inr (Some frame)))"
proof (cases "en_writable (AcquisitionMode (nodes s))")
  case False
  then show ?thesis by (simp add: acquire_single_frame_def extends_emit)
next
  case True
  let ?Q = "\<lambda>e. \<not> normalizer_or_save e"
  obtain r1 s1 where m: "select_mode ''SingleFrame'' s = (r1, s1)"
    by (cases "select_mode ''SingleFrame'' s")
  have e1: "extends ?Q s s1" using select_mode_extends[of s "''SingleFrame''"] m by simp
  obtain r2 s2 where b: "begin_acquisition w s1 = (r2, s2)"
    by (cases "begin_acquisition w s1")
  have e2: "extends ?Q s s2"
    using begin_acquisition_extends[of s1 w] b e1 by (auto intro: extends_trans)
  show ?thesis
  proof (cases r1)
    case (Inl e)
    then show ?thesis using True m e1 by (simp add: acquire_single_frame_def)
  next
    case r1: (Inr u)
    show ?thesis
    proof (cases r2)
      case (Inl e)
      then show ?thesis using True m b r1 e2 by (simp add: acquire_single_frame_def)
    next
      case r2: (Inr u2)
      show ?thesis
      proof (cases "ticks w")
        case Nil
        then show ?thesis using True m b r1 r2 e2 by (simp add: acquire_single_frame_def)
      next
        case (Cons t rest)
        then have nc: "\<not> complete_tick t" using assms by simp
        obtain r3 s3 where st: "single_try w t s2 = (r3, s3)"
          by (cases "single_try w t s2")
        have e3: "extends ?Q s s3"
          using single_try_idle[OF nc, of s2 w] st e2 by (auto intro: extends_trans)
        have r3: "r3 \<noteq> Inr (Some frame)" for frame
          using st nc
          by (auto simp: single_try_def complete_tick_def Let_def split: sum.splits if_splits)
        obtain r4 s4 where en: "end_acquisition w s3 = (r4, s4)"
          by (cases "end_acquisition w s3")
        have e4: "extends ?Q s s4"
          using end_acquisition_extends[of s3 w] en e3 by (auto intro: extends_trans)
        show ?thesis
          using True m b r1 r2 Cons st en e4 r3
          by (cases r4) (simp_all add: acquire_single_frame_def)
      qed
    qed
  qed
qed

lemma single_idle:
  assumes "\<forall>t \<in> set (ticks w). \<not> complete_tick t"
  shows "\<forall>e \<in> set (trace (snd (lab2_single_frame w output_path))). \<not> normalizer_or_save e"
proof -
  let ?Q = "\<lambda>e. \<not> normalizer_or_save e"
  define s0 where "s0 = emit [GetInstance, GetCameras] (initial_state w)"
  have t0: "\<forall>e \<in> set (trace s0). ?Q e"
    by (simp add: s0_def initial_state_def)
  define s1 where "s1 = snd (single_frame_try w output_path s0)"
  have e1: "extends ?Q s0 s1"
  proof (cases "Init_raises w")
    case True
    then show ?thesis by (simp add: s1_def single_frame_try_def Let_def extends_emit)
  next
    case False
    define sa where "sa = setup_pixel_format (emit [Init] s0)"
    have ea: "extends ?Q s0 sa"
      unfolding sa_def
      using extends_mono[OF setup_pixel_format_extends[of "emit [Init] s0"] setup_not_norm]
        extends_emit[of "[Init]" ?Q s0]
      by (auto intro: extends_trans)
    obtain r sb where acq: "acquire_single_frame w sa = (r, sb)"
      by (cases "acquire_single_frame w sa")
    have eb: "extends ?Q s0 sb" and nf: "r \<noteq> Some (Inr (Some frame))" for frame
      using acquire_single_frame_idle[OF assms, of sa] acq ea by (auto intro: extends_trans)
    have "s1 = sb \<or> s1 = emit [Print ERROR ''Failed to acquire single frame.''] sb"
      using False acq nf
      by (auto simp: s1_def single_frame_try_def Let_def sa_def
          split: option.splits sum.splits)
    then show ?thesis
      using eb extends_emit[of "[Print ERROR ''Failed to acquire single frame.'']" ?Q sb]
      by (auto intro: extends_trans)
  qed
  have e2: "extends ?Q s1 (snd (release_all w s1))" by (rule release_all_extends)
  have e0: "extends ?Q s0 (snd (no_camera w s0))" by (rule no_camera_extends)
  have "snd (lab2_single_frame w output_path) = snd (no_camera w s0) \<or>
        snd (lab2_single_frame w output_path) = s1 \<or>
        snd (lab2_single_frame w output_path) = snd (release_all w s1)"
    by (auto simp: lab2_single_frame_def Let_def s0_def s1_def
        split: prod.splits option.splits sum.splits)
  then show ?thesis
    using extends_all[OF e0 t0] extends_all[OF e1 t0] extends_all[OF extends_trans[OF e1 e2] t0]
    by auto
qed

lemma single_frame_try_none:
  "\<not> Init_raises w \<Longrightarrow>
   fst (acquire_single_frame w (setup_pixel_format (emit [Init] s))) = Some (Inr None) \<Longrightarrow>
   single_frame_try w output_path s =
     (Some (Inr ()),
      emit [Print ERROR ''Failed to acquire single frame.'']
        (snd (acquire_single_frame w (setup_pixel_format (emit [Init] s)))))"
  by (cases "acquire_single_frame w (setup_pixel_format (emit [Init] s))")
     (simp add: single_frame_try_def Let_def)

text \<open>
  C5, as the specification states it, fails in the single-shot flow: there an incomplete
  image ends the capture. \<open>acquire_single_frame\<close> returns no frame and
  \<open>lab2_single_frame\<close> reports an error and goes to its teardown.
\<close>

theorem C5_counterexample:
  "fetch (hd (ticks incomplete_world)) = Inr incomplete_frame \<and> IsIncomplete incomplete_frame \<and>
   fst (lab2_single_frame incomplete_world ''single_frame.png'') = Some (Inr ()) \<and>
   trace (snd (lab2_single_frame incomplete_world ''single_frame.png'')) =
     [GetInstance, GetCameras, Init,
      Print INFO ''Before setting PixelFormat:'',
      Print INFO ''Current PixelFormat: BayerGB8'',
      SetIntValue ''PixelFormat'' 1, Print INFO ''PixelFormat set to Mono8'',
      Print INFO ''After setting PixelFormat:'',
      Print INFO ''Current PixelFormat: Mono8'',
      SetIntValue ''AcquisitionMode'' 1, BeginAcquisition,
      GetNextImage (Inr 1), Print WARN ''Image incomplete. Status: {}'', Release 1,
      EndAcquisition, Print ERROR ''Failed to acquire single frame.'',
      DeInit, ClearList, ReleaseInstance]"
  by (simp add: incomplete_world_def run_defs world_defs)

text \<open>
  C5, amended. An image flagged incomplete is released at once, is never given to the
  normalizer and is never saved, in both flows. In the loop of the continuous flow the
  pass does nothing but fetch, warn and release, and the loop goes on with the next tick,
  the frame count unchanged. In the single-shot flow the \<open>try\<close> block does the same
  three things and yields no frame, on which the run prints an error, writes no file and
  returns through its teardown. A run none of whose ticks brings a complete image has no
  normalizer call and no write in its trace.
\<close>

theorem C5_incomplete:
  "(streaming s \<and> fetch t = Inr im \<and> IsIncomplete im \<longrightarrow>
      capture_loop w output_dir n (t # rest) frame_count s =
        capture_loop w output_dir n rest frame_count
          (emit [GetNextImage (Inr (frame_id im)), Print WARN ''Incomplete image. Status: {}'',
                 Release (frame_id im)] s) \<and>
      single_try w t s =
        (Inr None,
         emit [GetNextImage (Inr (frame_id im)), Print WARN ''Image incomplete. Status: {}'',
               Release (frame_id im)] s)) \<and>
   (\<not> Init_raises w \<and>
    fst (acquire_single_frame w (setup_pixel_format (emit [Init] s))) = Some (Inr None) \<longrightarrow>
      single_frame_try w output_path s =
        (Some (Inr ()),
         emit [Print ERROR ''Failed to acquire single frame.'']
           (snd (acquire_single_frame w (setup_pixel_format (emit [Init] s)))))) \<and>
   ((\<forall>t' \<in> set (ticks w). \<not> complete_tick t') \<longrightarrow>
      (\<forall>e \<in> set (trace (snd (realtime_view_and_save w output_dir n width height fps))).
         \<not> normalizer_or_save e) \<and>
      (\<forall>e \<in> set (trace (snd (lab2_single_frame w output_path))). \<not> normalizer_or_save e))"
  using loop_body_incomplete[of s t im w output_dir n frame_count]
    single_try_incomplete[of s t im w]
    single_frame_try_none[of w s output_path]
    realtime_idle[of w output_dir n width height fps] single_idle[of w output_path]
  by simp

theorem C5_incomplete_witness:
  "streaming ((initial_state incomplete_world)\<lparr>streaming := True\<rparr>) \<and>
   fetch (tick_of incomplete_frame (- 1)) = Inr incomplete_frame \<and>
   IsIncomplete incomplete_frame \<and>
   capture_loop incomplete_world ''captures'' 10
       [tick_of incomplete_frame (- 1), tick_of mono_frame 113] 0
       ((initial_state incomplete_world)\<lparr>streaming := True\<rparr>) =
     capture_loop incomplete_world ''captures'' 10 [tick_of mono_frame 113] 0
       (emit [GetNextImage (Inr 1), Print WARN ''Incomplete image. Status: {}'', Release 1]
          ((initial_state incomplete_world)\<lparr>streaming := True\<rparr>)) \<and>
   single_try incomplete_world (tick_of incomplete_frame (- 1))
       ((initial_state incomplete_world)\<lparr>streaming := True\<rparr>) =
     (Inr None,
      emit [GetNextImage (Inr 1), Print WARN ''Image incomplete. Status: {}'', Release 1]
        ((initial_state incomplete_world)\<lparr>streaming := True\<rparr>)) \<and>
   \<not> Init_raises incomplete_world \<and>
   fst (acquire_single_frame incomplete_world
          (setup_pixel_format (emit [Init] (initial_state incomplete_world)))) = Some (Inr None) \<and>
   single_frame_try incomplete_world ''single_frame.png'' (initial_state incomplete_world) =
     (Some (Inr ()),
      emit [Print ERROR ''Failed to acquire single frame.'']
        (snd (acquire_single_frame incomplete_world
                (setup_pixel_format (emit [Init] (initial_state incomplete_world)))))) \<and>
   ticks incomplete_world = [tick_of incomplete_frame (- 1)] \<and>
   \<not> complete_tick (tick_of incomplete_frame (- 1)) \<and>
   filter normalizer_or_save
     (trace (snd (realtime_view_and_save incomplete_world ''captures'' 10 1280 720 30))) = [] \<and>
   filter normalizer_or_save
     (trace (snd (lab2_single_frame incomplete_world ''single_frame.png''))) = []"
proof -
  have h1: "streaming ((initial_state incomplete_world)\<lparr>streaming := True\<rparr>)"
    by simp
  have h2: "fetch (tick_of incomplete_frame (- 1)) = Inr incomplete_frame"
    by (simp add: tick_of_def)
  have h3: "IsIncomplete incomplete_frame" "frame_id incomplete_frame = 1"
    by (simp_all add: incomplete_frame_def)
  have h4: "\<forall>t' \<in> set (ticks incomplete_world). \<not> complete_tick t'"
    by (simp add: incomplete_world_def complete_tick_def tick_of_def incomplete_frame_def)
  have h7: "ticks incomplete_world = [tick_of incomplete_frame (- 1)]"
    "\<not> complete_tick (tick_of incomplete_frame (- 1))"
    by (simp_all add: incomplete_world_def complete_tick_def tick_of_def incomplete_frame_def)
  have h5: "\<not> Init_raises incomplete_world"
    by (simp add: incomplete_world_def bench_world_def)
  have h6: "fst (acquire_single_frame incomplete_world
          (setup_pixel_format (emit [Init] (initial_state incomplete_world)))) = Some (Inr None)"
    by (simp add: incomplete_world_def run_defs world_defs)
  show ?thesis
    using C5_incomplete[of "(initial_state incomplete_world)\<lparr>streaming := True\<rparr>"
        "tick_of incomplete_frame (- 1)" incomplete_frame incomplete_world "''captures''" 10
        "[tick_of mono_frame 113]" 0 "''single_frame.png''" 1280 720 30]
      C5_incomplete[of "initial_state incomplete_world"
        "tick_of incomplete_frame (- 1)" incomplete_frame incomplete_world "''captures''" 10
        "[tick_of mono_frame 113]" 0 "''single_frame.png''" 1280 720 30]
      h1 h2 h3 h4 h5 h6 h7
    by (simp add: filter_empty_conv)
qed

section \<open>Releasing frames\<close>




















section \<open>Saving frames\<close>

subsection \<open>File names\<close>

lemma is_digit_digit_char: "d < 10 \<Longrightarrow> is_digit (digit_char d)"
  by (simp add: is_digit_def digit_char_def)

lemma decimal_digits: "\<forall>c \<in> set (decimal n). is_digit c"
proof (induction n rule: decimal.induct)
  case (1 n)
  show ?case
  proof (cases "n < 10")
    case True
    then show ?thesis by (subst decimal.simps) (simp add: is_digit_digit_char)
  next
    case False
    then show ?thesis
      using 1 by (subst decimal.simps) (simp add: is_digit_digit_char)
  qed
qed

lemma length_decimal: "0 < k \<Longrightarrow> n < 10 ^ k \<Longrightarrow> length (decimal n) \<le> k"
proof (induction k arbitrary: n)
  case 0
  then show ?case by simp
next
  case (Suc k)
  show ?case
  proof (cases "n < 10")
    case True
    then show ?thesis by (subst decimal.simps) simp
  next
    case False
    then have k: "0 < k" using Suc.prems by (cases k) auto
    have "n div 10 < 10 ^ k" using Suc.prems by (simp add: less_mult_imp_div_less mult.commute)
    then have "length (decimal (n div 10)) \<le> k" using Suc.IH k by blast
    then show ?thesis using False by (subst decimal.simps) simp
  qed
qed

lemma zero_pad_form:
  "0 < k \<Longrightarrow> n < 10 ^ k \<Longrightarrow> length (zero_pad k n) = k \<and> (\<forall>c \<in> set (zero_pad k n). is_digit c)"
  using length_decimal[of k n] decimal_digits[of n]
  by (auto simp: zero_pad_def is_digit_def)

lemma zero_pad_6: "n < 1000000 \<Longrightarrow> length (zero_pad 6 n) = 6 \<and> (\<forall>c \<in> set (zero_pad 6 n). is_digit c)"
  using zero_pad_form[of 6 n] by simp

lemma strftime_form:
  assumes "calendar_time t"
  shows "length (strftime t) = 15 \<and> strftime t ! 8 = CHR ''_'' \<and>
         (\<forall>i < 15. i \<noteq> 8 \<longrightarrow> is_digit (strftime t ! i))"
proof -
  define A where "A = zero_pad 4 (tm_year t) @ zero_pad 2 (tm_mon t) @ zero_pad 2 (tm_mday t)"
  define B where "B = zero_pad 2 (tm_hour t) @ zero_pad 2 (tm_min t) @ zero_pad 2 (tm_sec t)"
  have y: "length (zero_pad 4 (tm_year t)) = 4 \<and> (\<forall>c \<in> set (zero_pad 4 (tm_year t)). is_digit c)"
    using zero_pad_form[of 4 "tm_year t"] assms by (simp add: calendar_time_def)
  have two: "x < 100 \<Longrightarrow> length (zero_pad 2 x) = 2 \<and> (\<forall>c \<in> set (zero_pad 2 x). is_digit c)" for x
    using zero_pad_form[of 2 x] by simp
  have A: "length A = 8" "\<forall>c \<in> set A. is_digit c"
    using y two[of "tm_mon t"] two[of "tm_mday t"] assms by (auto simp: A_def calendar_time_def)
  have B: "length B = 6" "\<forall>c \<in> set B. is_digit c"
    using two[of "tm_hour t"] two[of "tm_min t"] two[of "tm_sec t"] assms
    by (auto simp: B_def calendar_time_def)
  have s: "strftime t = A @ CHR ''_'' # B"
    by (simp add: strftime_def A_def B_def)
  have "is_digit (strftime t ! i)" if "i < 15" "i \<noteq> 8" for i
  proof (cases "i < 8")
    case True
    then show ?thesis using A by (simp add: s nth_append)
  next
    case False
    then have "i - 8 - 1 < length B" using that B by simp
    then have "is_digit (B ! (i - 8 - 1))" using B(2) nth_mem by blast
    then show ?thesis using False that A by (simp add: s nth_append nth_Cons')
  qed
  then show ?thesis using A B by (simp add: s nth_append)
qed

lemma decimal_small: "decimal 10 = ''10''" "decimal 20 = ''20''" "decimal 30 = ''30''"
  by (simp_all add: decimal.simps digit_char_def char_of_def bit_iff_odd)

lemma zero_pad_tens:
  "zero_pad 6 10 = ''000010''" "zero_pad 6 20 = ''000020''" "zero_pad 6 30 = ''000030''"
  by code_simp+


subsection \<open>The save policy\<close>

lemma policy_saves_append:
  "policy_saves d n fc (xs @ ys) = policy_saves d n fc xs @ policy_saves d n (fc + length xs) ys"
  by (induction xs arbitrary: fc) auto

lemma policy_saves_closed:
  "policy_saves d n fc ts =
     map (\<lambda>k. path_join d (frame_filename (localtime (ts ! (k - Suc fc))) k))
       (filter (\<lambda>k. int k mod n = 0) [Suc fc..<Suc (fc + length ts)])"
proof (induction ts arbitrary: fc)
  case Nil
  then show ?case by simp
next
  case (Cons t ts)
  have split: "[Suc fc..<Suc (fc + length (t # ts))] = Suc fc # [Suc (Suc fc)..<Suc (Suc fc + length ts)]"
    by (subst upt_rec) simp
  have tail: "map (\<lambda>k. path_join d (frame_filename (localtime ((t # ts) ! (k - Suc fc))) k))
        (filter (\<lambda>k. int k mod n = 0) [Suc (Suc fc)..<Suc (Suc fc + length ts)]) =
      map (\<lambda>k. path_join d (frame_filename (localtime (ts ! (k - Suc (Suc fc)))) k))
        (filter (\<lambda>k. int k mod n = 0) [Suc (Suc fc)..<Suc (Suc fc + length ts)])"
    by (rule map_cong) (auto simp: nth_Cons')
  show ?case
    unfolding split using Cons.IH[of "Suc fc"] tail by simp
qed

lemma policy_saves_35:
  assumes "length ts = 35"
  shows "policy_saves d 10 0 ts =
     [path_join d (frame_filename (localtime (ts ! 9)) 10),
      path_join d (frame_filename (localtime (ts ! 19)) 20),
      path_join d (frame_filename (localtime (ts ! 29)) 30)]"
proof -
  have "filter (\<lambda>k. int k mod 10 = 0) [Suc 0..<Suc 35] = [10, 20, 30]"
    by code_simp
  then show ?thesis
    by (simp add: policy_saves_closed assms)
qed

lemma unwritten_events: "\<forall>e \<in> set E. written_of e = [] \<Longrightarrow> saved_paths E = []"
  by (induction E) auto

lemma convert_writes:
  assumes "convert_image_to_bgr dm im heap = (r, heap', evs)"
  shows "saved_paths evs = []"
proof -
  from convert_events[OF assms] have "\<forall>e \<in> set evs. written_of e = []"
    by fastforce
  then show ?thesis by (rule unwritten_events)
qed

text \<open>A pass on a tick that keeps the loop running, and on the tick that closes it.\<close>

lemma loop_body_running:
  assumes "running_tick w t" "streaming s" "n \<noteq> 0"
  shows "\<exists>s'. loop_body w d n t fc s = Continue (fc + length (filter complete_tick [t])) s' \<and>
           streaming s' \<and> dirs s' = dirs s \<and>
           saved_paths (trace s') =
             saved_paths (trace s) @ policy_saves d n fc (filter complete_tick [t])"
proof -
  from assms(1) obtain im where ft: "fetch t = Inr im"
    and cases: "IsIncomplete im \<or> (normalizes (bayer w) im \<and> \<not> q_pressed t)"
    by (auto simp: running_tick_def split: sum.splits)
  show ?thesis
  proof (cases "IsIncomplete im")
    case True
    then show ?thesis
      using ft assms(2) by (simp add: loop_body_def Let_def complete_tick_def)
  next
    case False
    then have nm: "normalizes (bayer w) im" and nq: "waitKey t AND 255 \<noteq> 113"
      using cases by (auto simp: q_pressed_def)
    obtain r heap' evs where c: "convert_image_to_bgr (bayer w) im (store s) = (r, heap', evs)"
      by (cases "convert_image_to_bgr (bayer w) im (store s)")
    from nm obtain frame where r: "r = Inr frame"
      using c by (auto simp: normalizes_iff[of "bayer w" im "store s"])
    have q: "saved_paths evs = []"
      by (rule convert_writes[OF c])
    show ?thesis
      using ft False assms(2,3) c r q nq
      by (simp add: loop_body_def Let_def complete_tick_def)
  qed
qed

lemma loop_body_closing:
  assumes "closing_tick w t" "streaming s" "n \<noteq> 0"
  shows "\<exists>s'. loop_body w d n t fc s = Stop (Inr ()) s' \<and> dirs s' = dirs s \<and>
           saved_paths (trace s') = saved_paths (trace s) @ policy_saves d n fc [t] \<and>
           complete_tick t"
proof -
  from assms(1) obtain im where ft: "fetch t = Inr im" and ni: "\<not> IsIncomplete im"
    and nm: "normalizes (bayer w) im" and q: "waitKey t AND 255 = 113"
    by (auto simp: closing_tick_def q_pressed_def split: sum.splits)
  obtain r heap' evs where c: "convert_image_to_bgr (bayer w) im (store s) = (r, heap', evs)"
    by (cases "convert_image_to_bgr (bayer w) im (store s)")
  from nm obtain frame where r: "r = Inr frame"
    using c by (auto simp: normalizes_iff[of "bayer w" im "store s"])
  have sv: "saved_paths evs = []"
    by (rule convert_writes[OF c])
  show ?thesis
    using ft ni assms(2,3) c r q sv
    by (simp add: loop_body_def Let_def complete_tick_def)
qed

lemma capture_loop_run:
  assumes "\<forall>t \<in> set ts. running_tick w t" "closing_tick w tq" "streaming s" "n \<noteq> 0"
  shows "\<exists>s'. capture_loop w d n (ts @ [tq]) fc s = (Some (Inr ()), s') \<and> dirs s' = dirs s \<and>
           saved_paths (trace s') =
             saved_paths (trace s) @ policy_saves d n fc (filter complete_tick (ts @ [tq]))"
  using assms
proof (induction ts arbitrary: fc s)
  case Nil
  then show ?case
    using loop_body_closing[of w tq s n d fc] by auto
next
  case (Cons t ts)
  obtain s1 where b: "loop_body w d n t fc s = Continue (fc + length (filter complete_tick [t])) s1"
    and st: "streaming s1" and d1: "dirs s1 = dirs s"
    and sv: "saved_paths (trace s1) =
             saved_paths (trace s) @ policy_saves d n fc (filter complete_tick [t])"
    using loop_body_running[of w t s n d fc] Cons.prems by auto
  obtain s' where l: "capture_loop w d n (ts @ [tq]) (fc + length (filter complete_tick [t])) s1 =
        (Some (Inr ()), s')" and d': "dirs s' = dirs s1"
    and sv': "saved_paths (trace s') = saved_paths (trace s1) @
        policy_saves d n (fc + length (filter complete_tick [t])) (filter complete_tick (ts @ [tq]))"
    using Cons.IH[of s1 "fc + length (filter complete_tick [t])"] Cons.prems st by auto
  have "filter complete_tick ((t # ts) @ [tq]) =
        filter complete_tick [t] @ filter complete_tick (ts @ [tq])"
    by simp
  then have "policy_saves d n fc (filter complete_tick ((t # ts) @ [tq])) =
      policy_saves d n fc (filter complete_tick [t]) @
      policy_saves d n (fc + length (filter complete_tick [t])) (filter complete_tick (ts @ [tq]))"
    by (simp only: policy_saves_append)
  then show ?case
    using b l d1 d' sv sv' by simp
qed


lemma setup_unwritten: "setup_event e \<Longrightarrow> written_of e = []"
  by (cases e) auto

lemma extends_setup_unwritten:
  "extends setup_event s s' \<Longrightarrow> saved_paths (trace s') = saved_paths (trace s)"
  unfolding extends_def using unwritten_events setup_unwritten by fastforce

lemma setup_pixel_format_dirs:
  "dirs (setup_pixel_format s) = dirs s \<and>
   AcquisitionMode (nodes (setup_pixel_format s)) = AcquisitionMode (nodes s)"
  using setup_pixel_format_effect[of s] by auto

lemma start_continuous_mode_started:
  assumes "en_writable (AcquisitionMode (nodes s))"
    "GetEntryByName (AcquisitionMode (nodes s)) ''Continuous'' = Some entry"
    "\<not> BeginAcquisition_raises w"
  shows "\<exists>s'. start_continuous_mode w s = (Inr (), s') \<and> streaming s' \<and> dirs s' = dirs s"
  using assms
  by (simp add: start_continuous_mode_def select_mode_def begin_acquisition_def)

lemma realtime_try_started:
  assumes "\<not> Init_raises w" "en_writable (AcquisitionMode (nodes s))"
    "GetEntryByName (AcquisitionMode (nodes s)) ''Continuous'' = Some entry"
    "\<not> BeginAcquisition_raises w"
  shows "\<exists>s4. extends setup_event s s4 \<and> streaming s4 \<and> dirs s4 = dirs s \<and>
           realtime_try w d n width height fps s = capture_loop w d n (ticks w) 0 s4"
proof -
  define s1 where "s1 = emit [Init] s"
  define s2 where "s2 = setup_pixel_format s1"
  define cfg where "cfg = configure_camera_resolution_fps (nodes s2) width height fps"
  define s3 where "s3 = emit (snd cfg) (s2\<lparr>nodes := fst cfg\<rparr>)"
  let ?P = "[Print INFO ''Start realtime streaming. Press q to quit.'',
             Print INFO ''Auto save: every {save_every_n_frames} frames to directory: {output_dir}'']"
  have e1: "extends setup_event s s1" by (simp add: s1_def extends_emit)
  have e2: "extends setup_event s1 s2"
    unfolding s2_def by (rule setup_pixel_format_extends)
  have e3: "extends setup_event s2 s3"
    using configure_setup[of "nodes s2" width height fps]
    by (auto simp: s3_def cfg_def extends_def)
  have m2: "AcquisitionMode (nodes s2) = AcquisitionMode (nodes s)" "dirs s2 = dirs s"
    using setup_pixel_format_dirs[of s1] by (simp_all add: s2_def s1_def)
  have m3: "AcquisitionMode (nodes s3) = AcquisitionMode (nodes s)" "dirs s3 = dirs s"
    using m2 configure_mode[of "nodes s2" width height fps] by (simp_all add: s3_def cfg_def)
  obtain s4 where st: "start_continuous_mode w s3 = (Inr (), s4)"
    and run: "streaming s4" and d4: "dirs s4 = dirs s"
    using start_continuous_mode_started[of s3 entry w] assms m3 by auto
  have e4: "extends setup_event s3 s4"
    using start_continuous_mode_extends[of s3 w] by (simp only: st snd_conv)
  have e5: "extends setup_event s4 (emit ?P s4)"
    by (rule extends_emit) simp
  have upto5: "extends setup_event s (emit ?P s4)"
    by (rule extends_trans[OF extends_trans[OF extends_trans[OF extends_trans[OF e1 e2] e3] e4] e5])
  have "realtime_try w d n width height fps s = capture_loop w d n (ticks w) 0 (emit ?P s4)"
    using assms(1) st
    by (simp add: realtime_try_def Let_def s3_def cfg_def s2_def s1_def case_prod_beta)
  then show ?thesis
    using upto5 run d4 by (intro exI[of _ "emit ?P s4"]) simp
qed

lemma cleanup_dirs: "dirs (snd (cleanup w s)) = dirs s"
  by (simp add: cleanup_def release_all_def end_acquisition_def Let_def)

text \<open>The files a run writes, for any cadence but zero.\<close>

lemma realtime_saves:
  assumes "num_cameras w \<noteq> 0" "\<not> Init_raises w" "\<not> BeginAcquisition_raises w"
    "en_writable (AcquisitionMode (device w))"
    "GetEntryByName (AcquisitionMode (device w)) ''Continuous'' = Some entry"
    "ticks w = ts @ [tq]" "\<forall>t \<in> set ts. running_tick w t" "closing_tick w tq" "n \<noteq> 0"
  shows "saved_paths (trace (snd (realtime_view_and_save w d n width height fps))) =
           policy_saves d n 0 (filter complete_tick (ticks w)) \<and>
         dirs (snd (realtime_view_and_save w d n width height fps)) =
           (if d \<in> set (existing_dirs w) then existing_dirs w else d # existing_dirs w)"
proof -
  define s0 where "s0 = emit [GetInstance, GetCameras] (makedirs d (initial_state w))"
  have t0: "saved_paths (trace s0) = []" "nodes s0 = device w"
    "dirs s0 = (if d \<in> set (existing_dirs w) then existing_dirs w else d # existing_dirs w)"
    by (simp_all add: s0_def makedirs_def initial_state_def)
  obtain s4 where e4: "extends setup_event s0 s4" and run: "streaming s4" and d4: "dirs s4 = dirs s0"
    and tr: "realtime_try w d n width height fps s0 = capture_loop w d n (ticks w) 0 s4"
    using realtime_try_started[of w s0 entry d n width height fps] assms t0 by auto
  have t4: "saved_paths (trace s4) = []"
    using extends_setup_unwritten[OF e4] t0 by simp
  obtain s5 where l: "capture_loop w d n (ts @ [tq]) 0 s4 = (Some (Inr ()), s5)"
    and d5: "dirs s5 = dirs s4"
    and sv: "saved_paths (trace s5) =
             saved_paths (trace s4) @ policy_saves d n 0 (filter complete_tick (ts @ [tq]))"
    using capture_loop_run[of ts w tq s4 n d 0] assms run by auto
  have fin: "snd (realtime_view_and_save w d n width height fps) = snd (cleanup w s5)"
    using assms(1,6) tr l
    by (auto simp: realtime_view_and_save_def Let_def s0_def split: prod.splits sum.splits)
  have "saved_paths (trace (snd (cleanup w s5))) = saved_paths (trace s5)"
    by (simp add: cleanup_trace teardown_trace_def)
  then show ?thesis
    using fin sv t4 d5 d4 t0 assms(6) by (simp add: cleanup_dirs)
qed

text \<open>
  C8. A run of \<open>realtime_view_and_save\<close> with cadence 10 that starts streaming, whose
  ticks before the last keep the loop running and whose last tick closes it with q, and
  which produces 35 complete frames, writes three files: for the 10th, the 20th and the
  30th complete frame, named frame\_, the time of that tick as year, month, day, an
  underscore, hour, minute, second, an underscore, the count on six digits, and .png, in
  the output directory. The output directory exists afterwards, created when it was
  absent. For a calendar time and a count below a million the time stamp has fifteen
  characters, digits but for the underscore in the ninth place, and the index has six
  digits.
\<close>

theorem C8_save_cadence:
  assumes "num_cameras w \<noteq> 0" "\<not> Init_raises w" "\<not> BeginAcquisition_raises w"
    "en_writable (AcquisitionMode (device w))"
    "GetEntryByName (AcquisitionMode (device w)) ''Continuous'' = Some entry"
    "ticks w = ts @ [tq]" "\<forall>t \<in> set ts. running_tick w t" "closing_tick w tq"
    "length (filter complete_tick (ticks w)) = 35"
  shows "saved_paths (trace (snd (realtime_view_and_save w output_dir 10 width height fps))) =
           [path_join output_dir
              (''frame_'' @ strftime (localtime (filter complete_tick (ticks w) ! 9)) @ ''_000010.png''),
            path_join output_dir
              (''frame_'' @ strftime (localtime (filter complete_tick (ticks w) ! 19)) @ ''_000020.png''),
            path_join output_dir
              (''frame_'' @ strftime (localtime (filter complete_tick (ticks w) ! 29)) @ ''_000030.png'')] \<and>
         dirs (snd (realtime_view_and_save w output_dir 10 width height fps)) =
           (if output_dir \<in> set (existing_dirs w) then existing_dirs w
            else output_dir # existing_dirs w) \<and>
         (\<forall>t (k::nat). calendar_time t \<and> k < 1000000 \<longrightarrow>
            (\<exists>stamp index.
               frame_filename t k = ''frame_'' @ stamp @ ''_'' @ index @ ''.png'' \<and>
               length stamp = 15 \<and> stamp ! 8 = CHR ''_'' \<and>
               (\<forall>i < 15. i \<noteq> 8 \<longrightarrow> is_digit (stamp ! i)) \<and>
               length index = 6 \<and> (\<forall>c \<in> set index. is_digit c)))"
proof (intro conjI allI impI)
  have ten: "(10::int) \<noteq> 0" by simp
  note rs = realtime_saves[OF assms(1-8) ten, of output_dir width height fps]
  show "saved_paths (trace (snd (realtime_view_and_save w output_dir 10 width height fps))) =
           [path_join output_dir
              (''frame_'' @ strftime (localtime (filter complete_tick (ticks w) ! 9)) @ ''_000010.png''),
            path_join output_dir
              (''frame_'' @ strftime (localtime (filter complete_tick (ticks w) ! 19)) @ ''_000020.png''),
            path_join output_dir
              (''frame_'' @ strftime (localtime (filter complete_tick (ticks w) ! 29)) @ ''_000030.png'')]"
    using rs policy_saves_35[OF assms(9), of output_dir]
    by (simp add: frame_filename_def zero_pad_tens)
  show "dirs (snd (realtime_view_and_save w output_dir 10 width height fps)) =
           (if output_dir \<in> set (existing_dirs w) then existing_dirs w
            else output_dir # existing_dirs w)"
    using rs by simp
next
  fix t and k :: nat
  assume a: "calendar_time t \<and> k < 1000000"
  show "\<exists>stamp index.
               frame_filename t k = ''frame_'' @ stamp @ ''_'' @ index @ ''.png'' \<and>
               length stamp = 15 \<and> stamp ! 8 = CHR ''_'' \<and>
               (\<forall>i < 15. i \<noteq> 8 \<longrightarrow> is_digit (stamp ! i)) \<and>
               length index = 6 \<and> (\<forall>c \<in> set index. is_digit c)"
    using strftime_form[of t] zero_pad_6[of k] a
    by (intro exI[of _ "strftime t"] exI[of _ "zero_pad 6 k"]) (simp add: frame_filename_def)
qed


theorem C8_save_cadence_witness:
  "num_cameras steady_world \<noteq> 0 \<and> \<not> Init_raises steady_world \<and>
   \<not> BeginAcquisition_raises steady_world \<and>
   en_writable (AcquisitionMode (device steady_world)) \<and>
   GetEntryByName (AcquisitionMode (device steady_world)) ''Continuous'' =
     Some \<lparr>e_readable = True, e_val = 0\<rparr> \<and>
   ticks steady_world = replicate 34 (tick_of mono_frame (- 1)) @ [tick_of mono_frame 113] \<and>
   running_tick steady_world (tick_of mono_frame (- 1)) \<and>
   closing_tick steady_world (tick_of mono_frame 113) \<and>
   length (filter complete_tick (ticks steady_world)) = 35 \<and>
   calendar_time noon \<and>
   saved_paths (trace (snd (realtime_view_and_save steady_world ''captures'' 10 1280 720 30))) =
     [''captures/frame_20250309_120005_000010.png'',
      ''captures/frame_20250309_120005_000020.png'',
      ''captures/frame_20250309_120005_000030.png''] \<and>
   dirs (snd (realtime_view_and_save steady_world ''captures'' 10 1280 720 30)) = [''captures'']"
proof -
  have nm: "normalizes flat_demosaic mono_frame"
    by (simp add: normalizes_def mono_frame_def convert_image_to_bgr_def call_cvtColor_def
        cvtColor_def cvt_def upper_eval)
  have k1: "\<not> q_pressed (tick_of mono_frame (- 1))" "q_pressed (tick_of mono_frame 113)"
    by (simp_all add: q_pressed_def tick_of_def)
  have ct: "complete_tick (tick_of mono_frame k)" for k
    by (simp add: complete_tick_def tick_of_def mono_frame_def)
  have h1: "num_cameras steady_world \<noteq> 0" "\<not> Init_raises steady_world"
    "\<not> BeginAcquisition_raises steady_world" "existing_dirs steady_world = []"
    "bayer steady_world = flat_demosaic"
    by (simp_all add: steady_world_def bench_world_def)
  have h2: "en_writable (AcquisitionMode (device steady_world))"
    "GetEntryByName (AcquisitionMode (device steady_world)) ''Continuous'' =
       Some \<lparr>e_readable = True, e_val = 0\<rparr>"
    by (simp_all add: steady_world_def bench_world_def bench_camera_def bench_modes_def
        GetEntryByName_def)
  have h3: "ticks steady_world = replicate 34 (tick_of mono_frame (- 1)) @ [tick_of mono_frame 113]"
    by (simp add: steady_world_def)
  have h4: "\<forall>t \<in> set (replicate 34 (tick_of mono_frame (- 1))). running_tick steady_world t"
    using nm k1 by (simp add: running_tick_def h1 tick_of_def mono_frame_def)
  have h5: "closing_tick steady_world (tick_of mono_frame 113)"
    using nm k1 by (simp add: closing_tick_def h1 tick_of_def mono_frame_def)
  have h6: "length (filter complete_tick (ticks steady_world)) = 35"
    by (simp add: h3 ct)
  have ix: "filter complete_tick (ticks steady_world) ! 9 = tick_of mono_frame (- 1)"
    "filter complete_tick (ticks steady_world) ! 19 = tick_of mono_frame (- 1)"
    "filter complete_tick (ticks steady_world) ! 29 = tick_of mono_frame (- 1)"
    by (simp_all add: h3 ct nth_append)
  have st: "strftime noon = ''20250309_120005''"
    by code_simp
  have lt: "localtime (tick_of mono_frame (- 1)) = noon"
    by (simp add: tick_of_def)
  have cal: "calendar_time noon"
    by (simp add: calendar_time_def noon_def)
  have pj: "path_join ''captures'' (CHR ''f'' # x) = ''captures/f'' @ x" for x
    by (simp add: path_join_def)
  note th = C8_save_cadence[OF h1(1-3) h2 h3 h4 h5 h6, of "''captures''" 1280 720 30]
  have sp: "saved_paths (trace (snd (realtime_view_and_save steady_world ''captures'' 10 1280 720 30))) =
     [''captures/frame_20250309_120005_000010.png'',
      ''captures/frame_20250309_120005_000020.png'',
      ''captures/frame_20250309_120005_000030.png'']"
    using th by (simp add: ix lt st pj)
  have ds: "dirs (snd (realtime_view_and_save steady_world ''captures'' 10 1280 720 30)) = [''captures'']"
    using th by (simp add: h1)
  have h4': "running_tick steady_world (tick_of mono_frame (- 1))"
    using h4 by simp
  show ?thesis
    using h1(1-3) h2 h3 h4' h5 h6 cal sp ds by blast
qed

end
